theory Spec2Isabelle
  imports Main "HOL-Library.Product_Lexorder" "HOL-Library.AList"
begin

section \<open>Python values used by \<^verbatim>\<open>bot.py\<close>\<close>

subsection \<open>Strings\<close>

text \<open>
  A Python \<^verbatim>\<open>str\<close> is a sequence of Unicode code points, so it is modelled as a list
  of naturals. ASCII literals are written \<open>u ''...''\<close>; text outside ASCII (the Russian
  messages and sheet names of the source) is written as its code points.
\<close>

type_synonym ustr = "nat list"

definition u :: "string \<Rightarrow> ustr" where
  "u s = map of_char s"

text \<open>\<^verbatim>\<open>str.isspace\<close> for one code point (the white-space characters of Unicode).\<close>

definition py_isspace :: "nat \<Rightarrow> bool" where
  "py_isspace c =
     ((9 \<le> c \<and> c \<le> 13) \<or> (28 \<le> c \<and> c \<le> 32) \<or> c = 133 \<or> c = 160 \<or> c = 5760
      \<or> (8192 \<le> c \<and> c \<le> 8202) \<or> c = 8232 \<or> c = 8233 \<or> c = 8239 \<or> c = 8287
      \<or> c = 12288)"

text \<open>\<^verbatim>\<open>s.strip()\<close>: white space removed at both ends.\<close>

definition py_strip :: "ustr \<Rightarrow> ustr" where
  "py_strip s = rev (dropWhile py_isspace (rev (dropWhile py_isspace s)))"

text \<open>
  The code points of general category Nd come in runs of ten, digit values 0 to 9 in
  order; \<open>nd_zeros\<close> lists the first code point of every run (Unicode 14, the table of
  CPython 3.11). \<open>digit_val\<close> is the value of a character that \<^verbatim>\<open>\d\<close> matches and
  \<^verbatim>\<open>int()\<close> reads.
\<close>

definition nd_zeros :: "nat list" where
  "nd_zeros =
     [48, 1632, 1776, 1984, 2406, 2534, 2662, 2790, 2918, 3046, 3174, 3302, 3430, 3558,
      3664, 3792, 3872, 4160, 4240, 6112, 6160, 6470, 6608, 6784, 6800, 6992, 7088, 7232,
      7248, 42528, 43216, 43264, 43472, 43504, 43600, 44016, 65296, 66720, 68912, 69734,
      69872, 69942, 70096, 70384, 70736, 70864, 71248, 71360, 71472, 71904, 72016, 72784,
      73040, 73120, 92768, 92864, 93008, 120782, 120792, 120802, 120812, 120822, 123200,
      123632, 125264, 130032]"

definition digit_val :: "nat \<Rightarrow> nat option" where
  "digit_val c =
     (case filter (\<lambda>z. z \<le> c \<and> c < z + 10) nd_zeros of
        [] \<Rightarrow> None
      | z # _ \<Rightarrow> Some (c - z))"

definition is_digit :: "nat \<Rightarrow> bool" where
  "is_digit c = (digit_val c \<noteq> None)"

text \<open>\<^verbatim>\<open>int(s)\<close> on a string of decimal digits (the regular expression's groups).\<close>

definition int_of_digits :: "ustr \<Rightarrow> int" where
  "int_of_digits s = foldl (\<lambda>acc c. 10 * acc + (case digit_val c of None \<Rightarrow> 0 | Some v \<Rightarrow> int v)) 0 s"

text \<open>\<^verbatim>\<open>str(n)\<close> for an integer, and zero padding as in \<^verbatim>\<open>%02d\<close>.\<close>

fun str_nat :: "nat \<Rightarrow> ustr" where
  "str_nat n = (if n < 10 then [48 + n] else str_nat (n div 10) @ [48 + n mod 10])"

declare str_nat.simps [simp del]

definition str_int :: "int \<Rightarrow> ustr" where
  "str_int i = (if i < 0 then 45 # str_nat (nat (- i)) else str_nat (nat i))"

definition zpad :: "nat \<Rightarrow> int \<Rightarrow> ustr" where
  "zpad w i =
     (if i < 0 then 45 # replicate (w - 1 - length (str_nat (nat (- i)))) 48 @ str_nat (nat (- i))
      else replicate (w - length (str_nat (nat i))) 48 @ str_nat (nat i))"

text \<open>\<^verbatim>\<open>html.escape(s)\<close> with its default \<^verbatim>\<open>quote=True\<close>.\<close>

definition escape_char :: "nat \<Rightarrow> ustr" where
  "escape_char c =
     (if c = 38 then u ''&amp;''
      else if c = 60 then u ''&lt;''
      else if c = 62 then u ''&gt;''
      else if c = 34 then u ''&quot;''
      else if c = 39 then u ''&#x27;''
      else [c])"

definition html_escape :: "ustr \<Rightarrow> ustr" where
  "html_escape s = concat (map escape_char s)"

text \<open>\<^verbatim>\<open>sep.join(parts)\<close>.\<close>

fun join :: "ustr \<Rightarrow> ustr list \<Rightarrow> ustr" where
  "join sep [] = []"
| "join sep [x] = x"
| "join sep (x # y # ys) = x @ sep @ join sep (y # ys)"

text \<open>
  \<^verbatim>\<open>xs[:k]\<close>: the first \<open>k\<close> elements, and for a negative \<open>k\<close> all but the last
  \<open>-k\<close>.
\<close>

definition py_take :: "int \<Rightarrow> 'a list \<Rightarrow> 'a list" where
  "py_take k xs = (if 0 \<le> k then take (nat k) xs else take (nat (int (length xs) + k)) xs)"

text \<open>\<^verbatim>\<open>s.endswith(suffix)\<close> and \<^verbatim>\<open>s.startswith(prefix)\<close>.\<close>

definition endswith :: "ustr \<Rightarrow> ustr \<Rightarrow> bool" where
  "endswith s suffix = (length suffix \<le> length s \<and> drop (length s - length suffix) s = suffix)"

definition startswith :: "ustr \<Rightarrow> ustr \<Rightarrow> bool" where
  "startswith s pre = (take (length pre) s = pre)"

subsection \<open>Exceptions\<close>

text \<open>
  A raised exception is a value: its class and its message. Functions that can raise
  return \<open>error + 'a\<close>, \<open>Inl\<close> the exception.
\<close>

datatype exc_class = ValueError | IndexError | OverflowError | OtherError

type_synonym error = "exc_class \<times> ustr"

definition exc_str :: "error \<Rightarrow> ustr" where
  "exc_str e = snd e"

text \<open>\<^verbatim>\<open>row[i]\<close> on a tuple: an index past the end raises.\<close>

definition row_get :: "'a list \<Rightarrow> nat \<Rightarrow> error + 'a" where
  "row_get row i =
     (if i < length row then Inr (row ! i) else Inl (IndexError, u ''tuple index out of range''))"

subsection \<open>Dates and naive datetimes\<close>

text \<open>
  \<^verbatim>\<open>datetime\<close> carries its fields; the values the program handles are naive (the
  spreadsheet reader and \<^verbatim>\<open>datetime(year, month, day)\<close> attach no time zone). The
  calendar arithmetic is the standard library's (\<^verbatim>\<open>_ymd2ord\<close>, \<^verbatim>\<open>_ord2ymd\<close>).
\<close>

record datetime =
  year :: int
  month :: int
  day :: int
  hour :: int
  minute :: int
  second :: int
  microsecond :: int

type_synonym date = "int \<times> int \<times> int"

definition is_leap :: "int \<Rightarrow> bool" where
  "is_leap y = (y mod 4 = 0 \<and> (y mod 100 \<noteq> 0 \<or> y mod 400 = 0))"

definition DAYS_IN_MONTH :: "int list" where
  "DAYS_IN_MONTH = [-1, 31, 28, 31, 30, 31, 30, 31, 31, 30, 31, 30, 31]"

definition DAYS_BEFORE_MONTH :: "int list" where
  "DAYS_BEFORE_MONTH = [-1, 0, 31, 59, 90, 120, 151, 181, 212, 243, 273, 304, 334]"

definition days_before_year :: "int \<Rightarrow> int" where
  "days_before_year y = (y - 1) * 365 + (y - 1) div 4 - (y - 1) div 100 + (y - 1) div 400"

definition days_in_month :: "int \<Rightarrow> int \<Rightarrow> int" where
  "days_in_month y m = (if m = 2 \<and> is_leap y then 29 else DAYS_IN_MONTH ! nat m)"

definition days_before_month :: "int \<Rightarrow> int \<Rightarrow> int" where
  "days_before_month y m = DAYS_BEFORE_MONTH ! nat m + (if 2 < m \<and> is_leap y then 1 else 0)"

definition ymd2ord :: "int \<Rightarrow> int \<Rightarrow> int \<Rightarrow> int" where
  "ymd2ord y m d = days_before_year y + days_before_month y m + d"

definition MAXORDINAL :: int where
  "MAXORDINAL = 3652059"

definition ord2ymd :: "int \<Rightarrow> date" where
  "ord2ymd n0 =
     (let n = n0 - 1;
          n400 = n div 146097; n = n mod 146097;
          n100 = n div 36524; n = n mod 36524;
          n4 = n div 1461; n = n mod 1461;
          n1 = n div 365; n = n mod 365;
          y = n400 * 400 + 1 + n100 * 100 + n4 * 4 + n1
      in if n1 = 4 \<or> n100 = 4 then (y - 1, 12, 31)
         else
           let leapyear = (n1 = 3 \<and> (n4 \<noteq> 24 \<or> n100 = 3));
               m = (n + 50) div 32;
               preceding = DAYS_BEFORE_MONTH ! nat m + (if 2 < m \<and> leapyear then 1 else 0)
           in if n < preceding
              then (y, m - 1,
                    n - (preceding - (DAYS_IN_MONTH ! nat (m - 1)
                                      + (if m - 1 = 2 \<and> leapyear then 1 else 0))) + 1)
              else (y, m, n - preceding + 1))"

text \<open>
  \<^verbatim>\<open>datetime(year, month, day)\<close>: the constructor checks its fields and raises
  ValueError.
\<close>

definition mk_datetime :: "int \<Rightarrow> int \<Rightarrow> int \<Rightarrow> error + datetime" where
  "mk_datetime y m d =
     (if \<not> (1 \<le> y \<and> y \<le> 9999) then Inl (ValueError, u ''year '' @ str_int y @ u '' is out of range'')
      else if \<not> (1 \<le> m \<and> m \<le> 12) then Inl (ValueError, u ''month must be in 1..12'')
      else if \<not> (1 \<le> d \<and> d \<le> days_in_month y m)
      then Inl (ValueError, u ''day is out of range for month'')
      else Inr \<lparr>year = y, month = m, day = d, hour = 0, minute = 0, second = 0,
                microsecond = 0\<rparr>)"

text \<open>\<^verbatim>\<open>d.date()\<close>, \<^verbatim>\<open>d.toordinal()\<close> and the comparison of naive datetimes (field by field).\<close>

definition date_of :: "datetime \<Rightarrow> date" where
  "date_of d = (year d, month d, day d)"

definition toordinal :: "date \<Rightarrow> int" where
  "toordinal d = (case d of (y, m, dd) \<Rightarrow> ymd2ord y m dd)"

definition dt_key :: "datetime \<Rightarrow> int \<times> int \<times> int \<times> int \<times> int \<times> int \<times> int" where
  "dt_key d = (year d, month d, day d, hour d, minute d, second d, microsecond d)"

definition dt_le :: "datetime \<Rightarrow> datetime \<Rightarrow> bool" where
  "dt_le a b = (dt_key a \<le> dt_key b)"

text \<open>
  \<^verbatim>\<open>d + timedelta(days=n)\<close> for a date and for a datetime: the ordinal moves by \<open>n\<close>,
  the time of day stays, and a result outside years 1 to 9999 raises OverflowError.
\<close>

definition date_add_days :: "date \<Rightarrow> int \<Rightarrow> error + date" where
  "date_add_days d n =
     (let o' = toordinal d + n
      in if 0 < o' \<and> o' \<le> MAXORDINAL then Inr (ord2ymd o')
         else Inl (OverflowError, u ''date value out of range''))"

definition datetime_add_days :: "datetime \<Rightarrow> int \<Rightarrow> error + datetime" where
  "datetime_add_days d n =
     (let o' = toordinal (date_of d) + n
      in if 0 < o' \<and> o' \<le> MAXORDINAL
         then (case ord2ymd o' of (y, m, dd) \<Rightarrow> Inr (d\<lparr>year := y, month := m, day := dd\<rparr>))
         else Inl (OverflowError, u ''date value out of range''))"

text \<open>
  \<^verbatim>\<open>d.strftime('%d.%m.%Y')\<close> (the year padded to four digits, as the library documents
  it) and \<^verbatim>\<open>str(d)\<close>.
\<close>

definition strftime_dmy :: "datetime \<Rightarrow> ustr" where
  "strftime_dmy d = zpad 2 (day d) @ u ''.'' @ zpad 2 (month d) @ u ''.'' @ zpad 4 (year d)"

definition str_datetime :: "datetime \<Rightarrow> ustr" where
  "str_datetime d =
     zpad 4 (year d) @ u ''-'' @ zpad 2 (month d) @ u ''-'' @ zpad 2 (day d) @ u '' ''
     @ zpad 2 (hour d) @ u '':'' @ zpad 2 (minute d) @ u '':'' @ zpad 2 (second d)
     @ (if microsecond d = 0 then [] else u ''.'' @ zpad 6 (microsecond d))"

section \<open>The spreadsheet as the reader delivers it\<close>

text \<open>
  A cell value of \<^verbatim>\<open>iter_rows(values_only=True)\<close>: \<^verbatim>\<open>None\<close>, a string, a number
  (\<^verbatim>\<open>int\<close>, \<^verbatim>\<open>bool\<close>, which Python counts as an \<^verbatim>\<open>int\<close>, or \<^verbatim>\<open>float\<close>), a
  \<^verbatim>\<open>datetime\<close>, or a value of another class (a date, a time, a duration), of which the
  program only takes \<^verbatim>\<open>str()\<close>. Floats are kept opaque (the type \<open>'f\<close>); what the
  program does with them is done by the three library functions of \<open>pylib\<close>:
  \<^verbatim>\<open>str(x)\<close>, \<^verbatim>\<open>float(i)\<close> (\<open>None\<close>: the integer is too large, OverflowError) and
  openpyxl's \<^verbatim>\<open>from_excel\<close> (\<open>None\<close>: it raises; the annotation
  \<^verbatim>\<open>Assignment = Tuple[str, datetime, str]\<close> takes its result for a datetime).
  For a serial strictly between 0 and 1 openpyxl returns a time of day instead of a
  datetime; the program then fails later, where it compares or reads the due value as a
  datetime. That case is outside this model: an instance of \<open>from_excel\<close> stands
  for the serials whose conversion is a datetime, and the facts below are about parses
  of such sheets.
\<close>

datatype 'f pynum = PInt int | PBool bool | PFloat 'f

datatype 'f cell = CNone | CStr ustr | CNum "'f pynum" | CDatetime datetime | COther ustr

record 'f pylib =
  str_float :: "'f \<Rightarrow> ustr"
  float_of_int :: "int \<Rightarrow> 'f option"
  from_excel :: "'f pynum \<Rightarrow> datetime option"

definition is_none :: "'f cell \<Rightarrow> bool" where
  "is_none c = (case c of CNone \<Rightarrow> True | _ \<Rightarrow> False)"

definition py_str :: "'f pylib \<Rightarrow> 'f cell \<Rightarrow> ustr" where
  "py_str lib c =
     (case c of
        CNone \<Rightarrow> u ''None''
      | CStr s \<Rightarrow> s
      | CNum (PInt i) \<Rightarrow> str_int i
      | CNum (PBool b) \<Rightarrow> (if b then u ''True'' else u ''False'')
      | CNum (PFloat x) \<Rightarrow> str_float lib x
      | CDatetime d \<Rightarrow> str_datetime d
      | COther s \<Rightarrow> s)"

text \<open>\<^verbatim>\<open>str(c).strip() if c is not None else ''\<close>\<close>

definition str_strip :: "'f pylib \<Rightarrow> 'f cell \<Rightarrow> ustr" where
  "str_strip lib c = (if is_none c then [] else py_strip (py_str lib c))"

text \<open>\<^verbatim>\<open>float(val)\<close> for a number.\<close>

definition py_float :: "'f pylib \<Rightarrow> 'f pynum \<Rightarrow> error + 'f" where
  "py_float lib n =
     (case n of
        PFloat x \<Rightarrow> Inr x
      | PInt i \<Rightarrow>
          (case float_of_int lib i of
             None \<Rightarrow> Inl (OverflowError, u ''int too large to convert to float'')
           | Some x \<Rightarrow> Inr x)
      | PBool b \<Rightarrow>
          (case float_of_int lib (if b then 1 else 0) of
             None \<Rightarrow> Inl (OverflowError, u ''int too large to convert to float'')
           | Some x \<Rightarrow> Inr x))"

text \<open>
  A workbook is its sheets in order, each a title and its rows (the header row first);
  a stored file is a workbook or something \<^verbatim>\<open>load_workbook\<close> rejects with a message.
\<close>

type_synonym 'f row = "'f cell list"

type_synonym 'f workbook = "(ustr \<times> 'f row list) list"

datatype 'f xfile = NotWorkbook ustr | Workbook "'f workbook"

definition load_workbook :: "'f xfile \<Rightarrow> error + 'f workbook" where
  "load_workbook f = (case f of NotWorkbook msg \<Rightarrow> Inl (OtherError, msg) | Workbook wb \<Rightarrow> Inr wb)"

text \<open>\<^verbatim>\<open>wb.sheetnames\<close>, \<^verbatim>\<open>wb[name]\<close> and \<^verbatim>\<open>ws.iter_rows(min_row=2, values_only=True)\<close>.\<close>

definition sheetnames :: "'f workbook \<Rightarrow> ustr list" where
  "sheetnames wb = map fst wb"

definition worksheet :: "'f workbook \<Rightarrow> ustr \<Rightarrow> 'f row list" where
  "worksheet wb name = (case map_of wb name of None \<Rightarrow> [] | Some rows \<Rightarrow> rows)"

definition iter_rows_min2 :: "'f row list \<Rightarrow> 'f row list" where
  "iter_rows_min2 rows = drop 1 rows"

section \<open>Sheet names\<close>

definition ASSESSMENT_SHEET :: ustr where
  "ASSESSMENT_SHEET = [1054, 1094, 1077, 1085, 1080, 1074, 1072, 1085, 1080, 1077]"

definition ASSIGNMENTS_SHEET :: ustr where
  "ASSIGNMENTS_SHEET = [1047, 1072, 1076, 1072, 1085, 1080, 1103]"

definition INFO_SHEET :: ustr where
  "INFO_SHEET = [1048, 1085, 1092, 1086]"

definition SHEET_ALIASES :: "(ustr \<times> ustr list) list" where
  "SHEET_ALIASES =
     [(ASSESSMENT_SHEET,
       [ASSESSMENT_SHEET, u ''Assessment'', [1054, 1094, 1077, 1085, 1082, 1072],
        [1054, 1094, 1077, 1085, 1080, 1074, 1072, 1085, 1080, 1077],
        [1054, 1094, 1077, 1085, 1082, 1080]]),
      (ASSIGNMENTS_SHEET,
       [ASSIGNMENTS_SHEET, u ''Assignments'', [1047, 1072, 1076, 1072, 1085, 1080, 1103],
        [1044, 1077, 1076, 1083, 1072, 1081, 1085, 1099]]),
      (INFO_SHEET,
       [INFO_SHEET, u ''Info'', [1048, 1085, 1092, 1086, 1088, 1084, 1072, 1094, 1080, 1103]])]"

text \<open>
  \<open>find_sheet_name\<close>: the first sheet whose title is one of the aliases. The callers
  pass one of the three keys of \<open>SHEET_ALIASES\<close>.
\<close>

definition find_sheet_name :: "'f workbook \<Rightarrow> ustr \<Rightarrow> ustr option" where
  "find_sheet_name wb canonical =
     (let aliases = (case map_of SHEET_ALIASES canonical of None \<Rightarrow> [] | Some a \<Rightarrow> a)
      in find (\<lambda>name. name \<in> set aliases) (sheetnames wb))"

section \<open>\<open>parse_weights\<close>\<close>

text \<open>
  \<^verbatim>\<open>CourseWeights\<close> is a dictionary: keys unique, kept in the order of their first
  insertion; \<^verbatim>\<open>weights[label] = x\<close> is \<open>AList.update\<close>. One pass of the loop body
  is \<open>weights_row\<close>: \<open>Inr None\<close> is \<^verbatim>\<open>continue\<close> (or a row that stores nothing),
  \<open>Inr (Some (label, x))\<close> the assignment to the dictionary, \<open>Inl\<close> an exception.
\<close>

type_synonym 'f course_weights = "(ustr \<times> 'f) list"

definition weights_row :: "'f pylib \<Rightarrow> 'f row \<Rightarrow> error + (ustr \<times> 'f) option" where
  "weights_row lib row =
     (if row = [] then Inr None
      else
        case row_get row 0 of Inl e \<Rightarrow> Inl e | Inr c0 \<Rightarrow>
        case (if is_none c0
              then (case row_get row 1 of Inl e \<Rightarrow> Inl e | Inr c1 \<Rightarrow> Inr (is_none c1))
              else Inr False) of
          Inl e \<Rightarrow> Inl e
        | Inr True \<Rightarrow> Inr None
        | Inr False \<Rightarrow>
            let label = str_strip lib c0
            in case row_get row 1 of Inl e \<Rightarrow> Inl e | Inr val \<Rightarrow>
               (case val of
                  CNum n \<Rightarrow>
                    if label \<noteq> []
                    then (case py_float lib n of Inl e \<Rightarrow> Inl e | Inr x \<Rightarrow> Inr (Some (label, x)))
                    else Inr None
                | _ \<Rightarrow> Inr None))"

fun weights_loop :: "'f pylib \<Rightarrow> 'f row list \<Rightarrow> 'f course_weights \<Rightarrow> error + 'f course_weights" where
  "weights_loop lib [] weights = Inr weights"
| "weights_loop lib (row # rows) weights =
     (case weights_row lib row of
        Inl e \<Rightarrow> Inl e
      | Inr None \<Rightarrow> weights_loop lib rows weights
      | Inr (Some (label, x)) \<Rightarrow> weights_loop lib rows (AList.update label x weights))"

definition parse_weights :: "'f pylib \<Rightarrow> 'f xfile \<Rightarrow> error + 'f course_weights" where
  "parse_weights lib xlsx =
     (case load_workbook xlsx of Inl e \<Rightarrow> Inl e | Inr wb \<Rightarrow>
      case find_sheet_name wb ASSESSMENT_SHEET of
        None \<Rightarrow> Inl (ValueError, u ''Sheet with course weights not found'')
      | Some name \<Rightarrow>
          if name = [] then Inl (ValueError, u ''Sheet with course weights not found'')
          else weights_loop lib (iter_rows_min2 (worksheet wb name)) [])"

section \<open>\<open>parse_assignments\<close>\<close>

type_synonym assignment = "ustr \<times> datetime \<times> ustr"

definition due :: "assignment \<Rightarrow> datetime" where
  "due a = fst (snd a)"

text \<open>
  \<^verbatim>\<open>re.match(r"(\d{2})\.(\d{2})\.(\d{4})", s)\<close>: the pattern is matched at the start of
  \<open>s\<close>; whatever follows the tenth character is not looked at. The result is the three
  groups.
\<close>

definition date_match :: "ustr \<Rightarrow> (ustr \<times> ustr \<times> ustr) option" where
  "date_match s =
     (let t = take 10 s
      in if length t = 10 \<and> list_all is_digit (take 2 t) \<and> t ! 2 = 46
            \<and> list_all is_digit (take 2 (drop 3 t)) \<and> t ! 5 = 46
            \<and> list_all is_digit (drop 6 t)
         then Some (take 2 t, take 2 (drop 3 t), drop 6 t)
         else None)"

text \<open>
  One pass of the loop body: \<open>Inr None\<close> is \<^verbatim>\<open>continue\<close>, \<open>Inr (Some a)\<close> is
  \<^verbatim>\<open>results.append(a)\<close>, \<open>Inl\<close> an exception that leaves the function.
\<close>

definition convert_due :: "'f pylib \<Rightarrow> 'f cell \<Rightarrow> error + datetime option" where
  "convert_due lib due_raw =
     (case due_raw of
        CDatetime d \<Rightarrow> Inr (Some d)
      | CNum n \<Rightarrow> Inr (from_excel lib n)
      | CStr s \<Rightarrow>
          (case date_match (py_strip s) of
             None \<Rightarrow> Inr None
           | Some (dd, mm, yyyy) \<Rightarrow>
               (case mk_datetime (int_of_digits yyyy) (int_of_digits mm) (int_of_digits dd) of
                  Inl e \<Rightarrow> Inl e
                | Inr d \<Rightarrow> Inr (Some d)))
      | _ \<Rightarrow> Inr None)"

definition assignment_row :: "'f pylib \<Rightarrow> 'f row \<Rightarrow> error + assignment option" where
  "assignment_row lib row =
     (if row = [] then Inr None
      else
        case row_get row 0 of Inl e \<Rightarrow> Inl e | Inr c0 \<Rightarrow>
        case (if is_none c0
              then (case row_get row 1 of Inl e \<Rightarrow> Inl e | Inr c1 \<Rightarrow>
                    if is_none c1
                    then (case row_get row 2 of Inl e \<Rightarrow> Inl e | Inr c2 \<Rightarrow> Inr (is_none c2))
                    else Inr False)
              else Inr False) of
          Inl e \<Rightarrow> Inl e
        | Inr True \<Rightarrow> Inr None
        | Inr False \<Rightarrow>
            let title = str_strip lib c0
            in case row_get row 1 of Inl e \<Rightarrow> Inl e | Inr due_raw \<Rightarrow>
               case row_get row 2 of Inl e \<Rightarrow> Inl e | Inr c2 \<Rightarrow>
               let link = str_strip lib c2
               in if title = [] then Inr None
                  else (case convert_due lib due_raw of
                          Inl e \<Rightarrow> Inl e
                        | Inr None \<Rightarrow> Inr None
                        | Inr (Some d) \<Rightarrow> Inr (Some (title, d, link))))"

fun assignments_loop :: "'f pylib \<Rightarrow> 'f row list \<Rightarrow> assignment list \<Rightarrow> error + assignment list" where
  "assignments_loop lib [] results = Inr results"
| "assignments_loop lib (row # rows) results =
     (case assignment_row lib row of
        Inl e \<Rightarrow> Inl e
      | Inr None \<Rightarrow> assignments_loop lib rows results
      | Inr (Some a) \<Rightarrow> assignments_loop lib rows (results @ [a]))"

text \<open>
  \<open>parse_rows\<close> is the function from the loop on: the rows of the sheet are read, and
  the list is sorted by the due datetime (\<^verbatim>\<open>list.sort\<close> is stable, as \<open>sort_key\<close> is).
\<close>

definition parse_rows :: "'f pylib \<Rightarrow> 'f row list \<Rightarrow> error + assignment list" where
  "parse_rows lib rows =
     (case assignments_loop lib rows [] of
        Inl e \<Rightarrow> Inl e
      | Inr results \<Rightarrow> Inr (sort_key (\<lambda>x. dt_key (due x)) results))"

definition parse_assignments :: "'f pylib \<Rightarrow> 'f xfile \<Rightarrow> error + assignment list" where
  "parse_assignments lib xlsx =
     (case load_workbook xlsx of Inl e \<Rightarrow> Inl e | Inr wb \<Rightarrow>
      case find_sheet_name wb ASSIGNMENTS_SHEET of
        None \<Rightarrow> Inl (ValueError, u ''Sheet with assignments not found'')
      | Some name \<Rightarrow>
          if name = [] then Inl (ValueError, u ''Sheet with assignments not found'')
          else parse_rows lib (iter_rows_min2 (worksheet wb name)))"


section \<open>Rendering\<close>

text \<open>
  The loop body shared by \<open>format_nearest\<close> and \<open>build_message\<close>: a bullet, the
  escaped title (a hyperlink when the link is not empty), a dash and the date.
\<close>

definition render_item :: "assignment \<Rightarrow> ustr" where
  "render_item a =
     (case a of (title, d, link) \<Rightarrow>
        let date_str = strftime_dmy d;
            safe_title = html_escape title
        in if link \<noteq> []
           then [8226, 32] @ u ''<a href='' @ [34] @ html_escape link @ [34] @ u ''>''
                @ safe_title @ u ''</a>'' @ [32, 8212, 32] @ date_str
           else [8226, 32] @ safe_title @ [32, 8212, 32] @ date_str)"

subsection \<open>\<open>format_nearest\<close>\<close>

text \<open>The message for an empty assignment list ("no deadline data; upload an Excel file with the assignments sheet").\<close>

definition MSG_NO_DEADLINE_DATA :: ustr where
  "MSG_NO_DEADLINE_DATA =
     [1053, 1077, 1090, 32, 1076, 1072, 1085, 1085, 1099, 1093, 32, 1086, 32, 1076, 1077,
      1076, 1083, 1072, 1081, 1085, 1072, 1093, 46, 32, 1047, 1072, 1075, 1088, 1091, 1079,
      1080, 1090, 1077, 32, 69, 120, 99, 101, 108, 32, 1089, 32, 1083, 1080, 1089, 1090,
      1086, 1084, 32, 34, 1047, 1072, 1076, 1072, 1085, 1080, 1103, 34, 46]"

text \<open>The message for an empty list of lines ("no deadlines in the next two weeks").\<close>

definition MSG_NONE_SOON :: ustr where
  "MSG_NONE_SOON =
     [1042, 32, 1073, 1083, 1080, 1078, 1072, 1081, 1096, 1080, 1077, 32, 50, 32, 1085,
      1077, 1076, 1077, 1083, 1080, 32, 1076, 1077, 1076, 1083, 1072, 1081, 1085, 1086,
      1074, 32, 1085, 1077, 1090, 46]"

text \<open>
  The clock reading \<^verbatim>\<open>datetime.now()\<close> is the argument \<open>now\<close>. \<open>nearest_items\<close>
  is \<^verbatim>\<open>window[:limit]\<close>, the assignments the loop renders.
\<close>

definition nearest_items :: "datetime \<Rightarrow> datetime \<Rightarrow> assignment list \<Rightarrow> int \<Rightarrow> assignment list" where
  "nearest_items now horizon assignments limit =
     py_take limit (filter (\<lambda>a. dt_le now (due a) \<and> dt_le (due a) horizon) assignments)"

definition format_nearest :: "datetime \<Rightarrow> assignment list \<Rightarrow> int \<Rightarrow> error + ustr" where
  "format_nearest now assignments limit =
     (if assignments = [] then Inr MSG_NO_DEADLINE_DATA
      else
        case datetime_add_days now 14 of Inl e \<Rightarrow> Inl e | Inr horizon \<Rightarrow>
        let lines = map render_item (nearest_items now horizon assignments limit)
        in if lines = [] then Inr MSG_NONE_SOON else Inr (join [10] lines))"

subsection \<open>\<open>format_info\<close>\<close>

text \<open>The message for an empty item list ("no data on the info sheet").\<close>

definition MSG_NO_INFO :: ustr where
  "MSG_NO_INFO =
     [1053, 1077, 1090, 32, 1076, 1072, 1085, 1085, 1099, 1093, 32, 1085, 1072, 32, 1083,
      1080, 1089, 1090, 1077, 32, 34, 1048, 1085, 1092, 1086, 34, 46]"

text \<open>The first line of the digest (a greeting).\<close>

definition INFO_GREETING :: ustr where
  "INFO_GREETING =
     [1055, 1088, 1080, 1074, 1077, 1090, 33, 32, 1053, 1080, 1078, 1077, 32, 1087, 1088,
      1080, 1074, 1077, 1076, 1077, 1085, 1099, 32, 1089, 1089, 1099, 1083, 1082, 1080, 32,
      1085, 1072, 32, 1086, 1089, 1085, 1086, 1074, 1085, 1099, 1077, 32, 1088, 1077, 1089,
      1091, 1088, 1089, 1099, 32, 1082, 1091, 1088, 1089, 1072, 32, 128071]"

text \<open>The labels rendered as handles: teacher, assistant, channel.\<close>

definition username_keys :: "ustr list" where
  "username_keys =
     [[1055, 1088, 1077, 1087, 1086, 1076, 1072, 1074, 1072, 1090, 1077, 1083, 1100],
      [1040, 1089, 1089, 1080, 1089, 1090, 1077, 1085, 1090],
      [1050, 1072, 1085, 1072, 1083]]"

text \<open>\<^verbatim>\<open>re.sub(r"^@+", '', val)\<close>: the at signs at the start are removed.\<close>

definition strip_leading_at :: "ustr \<Rightarrow> ustr" where
  "strip_leading_at val = dropWhile (\<lambda>c. c = 64) val"

text \<open>\<^verbatim>\<open>re.match(r"^[a-zA-Z][a-zA-Z0-9+.-]*://", link)\<close>\<close>

definition ascii_alpha :: "nat \<Rightarrow> bool" where
  "ascii_alpha c = ((65 \<le> c \<and> c \<le> 90) \<or> (97 \<le> c \<and> c \<le> 122))"

definition scheme_char :: "nat \<Rightarrow> bool" where
  "scheme_char c = (ascii_alpha c \<or> (48 \<le> c \<and> c \<le> 57) \<or> c = 43 \<or> c = 46 \<or> c = 45)"

definition has_scheme :: "ustr \<Rightarrow> bool" where
  "has_scheme link =
     (case link of
        [] \<Rightarrow> False
      | c # rest \<Rightarrow> ascii_alpha c \<and> startswith (dropWhile scheme_char rest) (u ''://''))"

text \<open>\<open>handle\<close> is the local \<^verbatim>\<open>display\<close> of an identity item.\<close>

definition handle :: "ustr \<Rightarrow> ustr" where
  "handle val =
     (let uname = py_strip (strip_leading_at val)
      in if uname \<noteq> [] then 64 # uname else [])"

definition info_line :: "ustr \<times> ustr \<Rightarrow> ustr" where
  "info_line item =
     (case item of (key, val) \<Rightarrow>
        let safe_key = html_escape key
        in if key \<in> set username_keys
           then [8226, 32] @ u ''<b>'' @ safe_key @ u ''</b>: '' @ html_escape (handle val)
           else
             let link = py_strip val;
                 link = (if link \<noteq> [] \<and> \<not> has_scheme link then u ''https://'' @ link else link);
                 safe_link = html_escape link
             in [8226, 32] @ u ''<a href='' @ [34] @ safe_link @ [34] @ u ''>'' @ safe_key
                @ u ''</a>'')"

definition format_info :: "(ustr \<times> ustr) list \<Rightarrow> ustr" where
  "format_info items =
     (if items = [] then MSG_NO_INFO
      else join [10, 10] (INFO_GREETING # map info_line items))"

section \<open>The reminder tick\<close>

text \<open>The label of the week message ("a week before").\<close>

definition LABEL_WEEK :: ustr where
  "LABEL_WEEK =
     [1079, 1072, 32, 1085, 1077, 1076, 1077, 1083, 1102]"

text \<open>The label of the day message ("a day before").\<close>

definition LABEL_DAY :: ustr where
  "LABEL_DAY =
     [1079, 1072, 32, 1076, 1077, 1085, 1100]"

text \<open>The header of a reminder, before and after the label ("reminder ... before the deadline:").\<close>

definition REMINDER_HEAD :: ustr where
  "REMINDER_HEAD =
     [128276, 32, 1053, 1072, 1087, 1086, 1084, 1080, 1085, 1072, 1085, 1080, 1077, 32, 60,
      98, 62]"

definition REMINDER_TAIL :: ustr where
  "REMINDER_TAIL =
     [60, 47, 98, 62, 32, 1076, 1086, 32, 1076, 1077, 1076, 1083, 1072, 1081, 1085, 1072,
      58]"

definition reminder_header :: "ustr \<Rightarrow> ustr" where
  "reminder_header label = REMINDER_HEAD @ label @ REMINDER_TAIL"

definition build_message :: "ustr \<Rightarrow> assignment list \<Rightarrow> ustr option" where
  "build_message label items =
     (if items = [] then None
      else Some (join [10] (reminder_header label # map render_item items)))"

text \<open>\<^verbatim>\<open>if text:\<close> on an optional string: neither \<^verbatim>\<open>None\<close> nor empty.\<close>

definition truthy :: "ustr option \<Rightarrow> bool" where
  "truthy t = (case t of None \<Rightarrow> False | Some s \<Rightarrow> s \<noteq> [])"

text \<open>
  \<open>reminder_texts\<close> is the callback from the clock reading on: \<open>now\<close> is the local
  time, the due datetimes are naive, so \<^verbatim>\<open>due.tzinfo\<close> is \<^verbatim>\<open>None\<close> and the due date is
  \<^verbatim>\<open>due.date()\<close>. The result is the texts handed to \<^verbatim>\<open>send_message\<close>, in the
  order of the calls.
\<close>

definition week_items :: "date \<Rightarrow> assignment list \<Rightarrow> assignment list" where
  "week_items week_target assignments = filter (\<lambda>a. date_of (due a) = week_target) assignments"

definition day_items :: "date \<Rightarrow> assignment list \<Rightarrow> assignment list" where
  "day_items day_target assignments = filter (\<lambda>a. date_of (due a) = day_target) assignments"

definition reminder_texts :: "datetime \<Rightarrow> assignment list \<Rightarrow> error + ustr list" where
  "reminder_texts now assignments =
     (let today = date_of now
      in case date_add_days today 7 of Inl e \<Rightarrow> Inl e | Inr week_target \<Rightarrow>
         case date_add_days today 1 of Inl e \<Rightarrow> Inl e | Inr day_target \<Rightarrow>
         let week_text = build_message LABEL_WEEK (week_items week_target assignments);
             day_text = build_message LABEL_DAY (day_items day_target assignments)
         in Inr ((if truthy week_text then [the week_text] else [])
                 @ (if truthy day_text then [the day_text] else [])))"


section \<open>The job registry\<close>

text \<open>
  A job of the queue: its name, its data (the chat identifier and the path of the
  chat's file) and when it runs. The scheduler keeps the jobs in a list;
  \<^verbatim>\<open>remove_all_jobs\<close> empties it, \<^verbatim>\<open>run_repeating\<close> and \<^verbatim>\<open>run_daily\<close> add one job.
  \<^verbatim>\<open>context.job_queue\<close> is \<^verbatim>\<open>None\<close> when the queue is not installed.
\<close>

datatype trigger = Repeating int int | Daily int int

record job =
  job_name :: ustr
  job_chat_id :: int
  job_xlsx_path :: ustr
  job_trigger :: trigger

type_synonym job_queue = "job list option"

definition remove_all_jobs :: "job list \<Rightarrow> job list" where
  "remove_all_jobs jobs = []"

definition run_repeating :: "int \<Rightarrow> int \<Rightarrow> int \<Rightarrow> ustr \<Rightarrow> ustr \<Rightarrow> job list \<Rightarrow> job list" where
  "run_repeating interval first chat_id xlsx_path name jobs =
     jobs @ [\<lparr>job_name = name, job_chat_id = chat_id, job_xlsx_path = xlsx_path,
              job_trigger = Repeating interval first\<rparr>]"

definition run_daily :: "int \<Rightarrow> int \<Rightarrow> int \<Rightarrow> ustr \<Rightarrow> ustr \<Rightarrow> job list \<Rightarrow> job list" where
  "run_daily hh mm chat_id xlsx_path name jobs =
     jobs @ [\<lparr>job_name = name, job_chat_id = chat_id, job_xlsx_path = xlsx_path,
              job_trigger = Daily hh mm\<rparr>]"

text \<open>\<^verbatim>\<open>DATA_DIR / f"{chat_id}.xlsx"\<close>, as the string the job data holds.\<close>

definition get_chat_file :: "int \<Rightarrow> ustr" where
  "get_chat_file chat_id = u ''data/'' @ str_int chat_id @ u ''.xlsx''"

text \<open>
  \<open>schedule_chat_reminders\<close>; \<open>test_mode\<close> is the module's \<^verbatim>\<open>TEST_MODE\<close>. The
  scheduler's three operations are total here, so the function raises nothing.
\<close>

definition schedule_chat_reminders :: "bool \<Rightarrow> int \<Rightarrow> ustr \<Rightarrow> job_queue \<Rightarrow> job_queue" where
  "schedule_chat_reminders test_mode chat_id xlsx_path jq =
     (case jq of
        None \<Rightarrow> None
      | Some jobs \<Rightarrow>
          let jobs = remove_all_jobs jobs
          in if test_mode
             then Some (run_repeating 15 0 chat_id xlsx_path (u ''daily:'' @ str_int chat_id) jobs)
             else Some (run_daily 10 0 chat_id xlsx_path (u ''daily:'' @ str_int chat_id) jobs))"

text \<open>The jobs a queue holds for one chat.\<close>

definition jobs_of_chat :: "int \<Rightarrow> job_queue \<Rightarrow> job list" where
  "jobs_of_chat c jq = (case jq of None \<Rightarrow> [] | Some jobs \<Rightarrow> filter (\<lambda>j. job_chat_id j = c) jobs)"

text \<open>
  The startup hook: one call of \<open>schedule_chat_reminders\<close> for every stored file
  whose stem is a chat identifier, in the order of the directory listing.
\<close>

definition startup :: "bool \<Rightarrow> int list \<Rightarrow> job_queue \<Rightarrow> job_queue" where
  "startup test_mode chat_ids jq =
     fold (\<lambda>c q. schedule_chat_reminders test_mode c (get_chat_file c) q) chat_ids jq"

section \<open>The callback of a job\<close>

text \<open>
  The stored files, by path; a path with no file is rejected by \<^verbatim>\<open>load_workbook\<close> like
  an unreadable file.
\<close>

type_synonym 'f filesystem = "ustr \<Rightarrow> 'f xfile option"

definition open_path :: "'f filesystem \<Rightarrow> ustr \<Rightarrow> 'f xfile" where
  "open_path fs path =
     (case fs path of None \<Rightarrow> NotWorkbook (u ''No such file or directory'') | Some f \<Rightarrow> f)"

text \<open>
  \<open>daily_reminder_callback\<close>: the messages sent (chat and text), in order. A job
  without chat or path, and a file that cannot be parsed, send nothing.
\<close>

definition daily_reminder_callback ::
  "'f pylib \<Rightarrow> 'f filesystem \<Rightarrow> datetime \<Rightarrow> job \<Rightarrow> error + (int \<times> ustr) list" where
  "daily_reminder_callback lib fs now j =
     (let chat_id = job_chat_id j; xlsx_path = job_xlsx_path j
      in if chat_id = 0 \<or> xlsx_path = [] then Inr []
         else
           case parse_assignments lib (open_path fs xlsx_path) of
             Inl e \<Rightarrow> Inr []
           | Inr assignments \<Rightarrow>
               (case reminder_texts now assignments of
                  Inl e \<Rightarrow> Inl e
                | Inr texts \<Rightarrow> Inr (map (\<lambda>t. (chat_id, t)) texts)))"

section \<open>\<open>handle_document\<close>\<close>

text \<open>
  The replies of the handler, in the order of the source: the request to send an Excel
  file; the two acknowledgements (an update is being read, a file is being received);
  the report that the file was saved but could not be read, which the message of the
  exception follows; the two confirmations (information updated, file saved); and the
  two notes about the reminders (test reminders every 15 seconds, daily reminders at
  10:00).
\<close>

definition MSG_SEND_EXCEL :: ustr where
  "MSG_SEND_EXCEL =
     [1055, 1086, 1078, 1072, 1083, 1091, 1081, 1089, 1090, 1072, 44, 32, 1086, 1090, 1087,
      1088, 1072, 1074, 1100, 1090, 1077, 32, 69, 120, 99, 101, 108, 45, 1092, 1072, 1081,
      1083, 32, 40, 46, 120, 108, 115, 120, 32, 1080, 1083, 1080, 32, 46, 120, 108, 115,
      109, 41, 46]"

definition MSG_UPDATING :: ustr where
  "MSG_UPDATING =
     [1054, 1073, 1085, 1086, 1074, 1083, 1103, 1102, 32, 1080, 1085, 1092, 1086, 1088,
      1084, 1072, 1094, 1080, 1102, 32, 1080, 1079, 32, 1085, 1086, 1074, 1086, 1075, 1086,
      32, 1092, 1072, 1081, 1083, 1072, 46, 46, 46]"

definition MSG_RECEIVING :: ustr where
  "MSG_RECEIVING =
     [1055, 1086, 1083, 1091, 1095, 1072, 1102, 32, 1092, 1072, 1081, 1083, 46, 46, 46]"

definition MSG_SAVED_UNREADABLE :: ustr where
  "MSG_SAVED_UNREADABLE =
     [1060, 1072, 1081, 1083, 32, 1089, 1086, 1093, 1088, 1072, 1085, 1105, 1085, 44, 32,
      1085, 1086, 32, 1085, 1077, 32, 1091, 1076, 1072, 1083, 1086, 1089, 1100, 32, 1077,
      1075, 1086, 32, 1087, 1088, 1086, 1095, 1080, 1090, 1072, 1090, 1100, 32, 1087, 1086,
      1083, 1085, 1086, 1089, 1090, 1100, 1102, 46, 32, 1055, 1088, 1086, 1074, 1077, 1088,
      1100, 1090, 1077, 32, 1089, 1090, 1088, 1091, 1082, 1090, 1091, 1088, 1091, 32, 1083,
      1080, 1089, 1090, 1086, 1074, 46, 32, 1054, 1096, 1080, 1073, 1082, 1072, 58, 32]"

definition MSG_UPDATED :: ustr where
  "MSG_UPDATED =
     [1048, 1085, 1092, 1086, 1088, 1084, 1072, 1094, 1080, 1103, 32, 1091, 1089, 1087,
      1077, 1096, 1085, 1086, 32, 1086, 1073, 1085, 1086, 1074, 1083, 1077, 1085, 1072, 33,
      32, 1048, 1089, 1087, 1086, 1083, 1100, 1079, 1091, 1081, 1090, 1077, 32, 47, 104,
      101, 108, 112, 32, 1076, 1083, 1103, 32, 1089, 1074, 1086, 1076, 1082, 1080, 46]"

definition MSG_SAVED :: ustr where
  "MSG_SAVED =
     [1060, 1072, 1081, 1083, 32, 1089, 1086, 1093, 1088, 1072, 1085, 1105, 1085, 32, 1076,
      1083, 1103, 32, 1101, 1090, 1086, 1075, 1086, 32, 1095, 1072, 1090, 1072, 46, 32,
      1048, 1089, 1087, 1086, 1083, 1100, 1079, 1091, 1081, 1090, 1077, 32, 47, 104, 101,
      108, 112, 32, 1076, 1083, 1103, 32, 1089, 1074, 1086, 1076, 1082, 1080, 46]"

definition MSG_TEST_REMINDERS :: ustr where
  "MSG_TEST_REMINDERS =
     [1058, 1077, 1089, 1090, 1086, 1074, 1099, 1077, 32, 1085, 1072, 1087, 1086, 1084,
      1080, 1085, 1072, 1085, 1080, 1103, 32, 1072, 1082, 1090, 1080, 1074, 1080, 1088,
      1086, 1074, 1072, 1085, 1099, 32, 40, 1082, 1072, 1078, 1076, 1099, 1077, 32, 49, 53,
      32, 1089, 1077, 1082, 1091, 1085, 1076, 41, 46]"

definition MSG_DAILY_REMINDERS :: ustr where
  "MSG_DAILY_REMINDERS =
     [1045, 1078, 1077, 1076, 1085, 1077, 1074, 1085, 1099, 1077, 32, 1085, 1072, 1087,
      1086, 1084, 1080, 1085, 1072, 1085, 1080, 1103, 32, 1079, 1072, 1087, 1083, 1072,
      1085, 1080, 1088, 1086, 1074, 1072, 1085, 1099, 32, 1085, 1072, 32, 49, 48, 58, 48,
      48, 46]"

text \<open>
  What the handler reads of an update: the chat, and the message with its document or
  its list of attachments. A document has a file name (possibly none) and the content
  that \<^verbatim>\<open>download_to_drive\<close> writes; the transfer is taken to succeed.
\<close>

record 'f document =
  file_name :: "ustr option"
  payload :: "'f xfile"

record 'f message =
  document :: "'f document option"
  effective_attachment :: "'f document list option"

record 'f update =
  effective_chat_id :: int
  message :: "'f message option"

text \<open>
  What the handler changes: the stored files, the job queue, the flag
  \<^verbatim>\<open>user_data['expecting_update']\<close> and the replies sent, oldest first.
\<close>

record 'f bot_state =
  files :: "'f filesystem"
  jobs :: job_queue
  expecting_update :: bool
  replies :: "ustr list"

definition reply_text :: "ustr \<Rightarrow> 'f bot_state \<Rightarrow> 'f bot_state" where
  "reply_text t st = st\<lparr>replies := replies st @ [t]\<rparr>"

text \<open>
  \<^verbatim>\<open>s.lower()\<close>, on the letters A to Z. The handler only tests the result for the
  suffixes \<^verbatim>\<open>.xlsx\<close> and \<^verbatim>\<open>.xlsm\<close>, and no character outside ASCII lowers to one of
  their characters.
\<close>

definition py_lower :: "ustr \<Rightarrow> ustr" where
  "py_lower s = map (\<lambda>c. if 65 \<le> c \<and> c \<le> 90 then c + 32 else c) s"

definition is_excel_name :: "ustr \<Rightarrow> bool" where
  "is_excel_name n = (endswith (py_lower n) (u ''.xlsx'') \<or> endswith (py_lower n) (u ''.xlsm''))"

text \<open>The validation: both parsers run on the stored file, their results dropped.\<close>

definition validate :: "'f pylib \<Rightarrow> 'f xfile \<Rightarrow> error + unit" where
  "validate lib xlsx =
     (case parse_weights lib xlsx of
        Inl e \<Rightarrow> Inl e
      | Inr _ \<Rightarrow> (case parse_assignments lib xlsx of Inl e \<Rightarrow> Inl e | Inr _ \<Rightarrow> Inr ()))"

text \<open>The document the handler works on: the message's, or the first Excel attachment.\<close>

definition pick_document :: "'f message \<Rightarrow> 'f document option" where
  "pick_document msg =
     (case document msg of
        Some d \<Rightarrow> Some d
      | None \<Rightarrow>
          (case effective_attachment msg of
             None \<Rightarrow> None
           | Some atts \<Rightarrow>
               find (\<lambda>att. case file_name att of None \<Rightarrow> False
                                | Some n \<Rightarrow> n \<noteq> [] \<and> is_excel_name n) atts))"

text \<open>
  \<open>handle_document\<close>. An update without a message or without a document changes
  nothing. \<open>schedule_chat_reminders\<close> raises nothing in this model, so the
  \<^verbatim>\<open>except\<close> branch around it has no counterpart.
\<close>

definition handle_document :: "'f pylib \<Rightarrow> bool \<Rightarrow> 'f update \<Rightarrow> 'f bot_state \<Rightarrow> 'f bot_state" where
  "handle_document lib test_mode upd st =
     (let chat_id = effective_chat_id upd;
          is_update_request = expecting_update st
      in case message upd of None \<Rightarrow> st | Some msg \<Rightarrow>
         case pick_document msg of None \<Rightarrow> st | Some doc \<Rightarrow>
         if \<not> is_excel_name (case file_name doc of None \<Rightarrow> [] | Some n \<Rightarrow> n)
         then reply_text MSG_SEND_EXCEL st
         else
           let st = reply_text (if is_update_request then MSG_UPDATING else MSG_RECEIVING) st;
               new_path = get_chat_file chat_id;
               st = st\<lparr>files := (files st)(new_path \<mapsto> payload doc)\<rparr>
           in case validate lib (open_path (files st) new_path) of
                Inl exc \<Rightarrow> reply_text (MSG_SAVED_UNREADABLE @ exc_str exc) st
              | Inr _ \<Rightarrow>
                  let st = st\<lparr>expecting_update := False\<rparr>;
                      st = reply_text (if is_update_request then MSG_UPDATED else MSG_SAVED) st;
                      st = st\<lparr>jobs := schedule_chat_reminders test_mode chat_id new_path (jobs st)\<rparr>
                  in reply_text (if test_mode then MSG_TEST_REMINDERS else MSG_DAILY_REMINDERS) st)"


section \<open>Notions the properties are stated with\<close>

text \<open>
  The assignments of the rows that the loop of \<open>parse_assignments\<close> accepts, in the
  order of the rows; and the label and weight of the rows that the loop of
  \<open>parse_weights\<close> accepts, in the order of the rows.
\<close>

fun accepted_rows :: "'f pylib \<Rightarrow> 'f row list \<Rightarrow> assignment list" where
  "accepted_rows lib [] = []"
| "accepted_rows lib (row # rows) =
     (case assignment_row lib row of
        Inr (Some a) \<Rightarrow> a # accepted_rows lib rows
      | _ \<Rightarrow> accepted_rows lib rows)"

fun accepted_weights :: "'f pylib \<Rightarrow> 'f row list \<Rightarrow> (ustr \<times> 'f) list" where
  "accepted_weights lib [] = []"
| "accepted_weights lib (row # rows) =
     (case weights_row lib row of
        Inr (Some p) \<Rightarrow> p # accepted_weights lib rows
      | _ \<Rightarrow> accepted_weights lib rows)"


text \<open>
  A week message is a text that begins with the reminder header carrying the week
  label, a day message one that begins with the header carrying the day label.
\<close>

definition is_week_message :: "ustr \<Rightarrow> bool" where
  "is_week_message t = startswith t (reminder_header LABEL_WEEK)"

definition is_day_message :: "ustr \<Rightarrow> bool" where
  "is_day_message t = startswith t (reminder_header LABEL_DAY)"

text \<open>The default of the parameter \<^verbatim>\<open>limit\<close> of \<open>format_nearest\<close>.\<close>

definition DEFAULT_LIMIT :: int where
  "DEFAULT_LIMIT = 5"

text \<open>
  The handle as the words of C9 give it: the at signs at the start of the value are
  removed and one at sign is put in front; the empty value gives the empty handle.
  It is compared with \<open>handle\<close>, which is what the source computes.
\<close>

definition claimed_handle :: "ustr \<Rightarrow> ustr" where
  "claimed_handle val = (if val = [] then [] else 64 # dropWhile (\<lambda>c. c = 64) val)"

section \<open>Example inputs\<close>

text \<open>
  A library instance for the examples: floats are stood for by integers, and
  \<^verbatim>\<open>from_excel\<close> rejects every serial.
\<close>

definition example_lib :: "int pylib" where
  "example_lib = \<lparr>str_float = str_int, float_of_int = Some, from_excel = (\<lambda>n. None)\<rparr>"

definition at_midnight :: "int \<Rightarrow> int \<Rightarrow> int \<Rightarrow> datetime" where
  "at_midnight y m d =
     \<lparr>year = y, month = m, day = d, hour = 0, minute = 0, second = 0, microsecond = 0\<rparr>"

text \<open>
  A workbook with both sheets: the label HW stands twice on the grading sheet, and
  the assignments are out of order, two of them due on the same day.
\<close>

definition example_workbook :: "int xfile" where
  "example_workbook =
     Workbook
       [(u ''Assessment'',
         [[CStr (u ''Component''), CStr (u ''Weight'')],
          [CStr (u ''HW''), CNum (PInt 40)],
          [CStr (u ''Exam''), CNum (PInt 50)],
          [CStr (u '' HW ''), CNum (PInt 60)],
          [CStr (u ''Quiz''), CStr (u ''ten'')]]),
        (u ''Assignments'',
         [[CStr (u ''Title''), CStr (u ''Due date''), CStr (u ''Link'')],
          [CStr (u ''B''), CStr (u ''05.02.2024''), CNone],
          [CStr (u ''A''), CDatetime (at_midnight 2024 2 1), CNone],
          [CStr (u ''C''), CStr (u ''05.02.2024''), CStr (u ''x.org/c'')],
          [CNone, CNone, CNone],
          [CStr (u ''D''), CStr (u ''30.01.2024''), CNone],
          [CStr (u ''E''), CStr (u ''soon''), CNone]])]"

definition example_assignments :: "assignment list" where
  "example_assignments =
     [(u ''D'', at_midnight 2024 1 30, []),
      (u ''A'', at_midnight 2024 2 1, []),
      (u ''B'', at_midnight 2024 2 5, []),
      (u ''C'', at_midnight 2024 2 5, u ''x.org/c'')]"

text \<open>The clock of the examples: 29 January 2024, 10:00.\<close>

definition example_now :: datetime where
  "example_now = \<lparr>year = 2024, month = 1, day = 29, hour = 10, minute = 0, second = 0,
                   microsecond = 0\<rparr>"

text \<open>A workbook without the grading sheet and an upload of it to chat 7.\<close>

definition example_bad_workbook :: "int xfile" where
  "example_bad_workbook = Workbook [(u ''Sheet1'', [])]"

definition example_upload :: "int xfile \<Rightarrow> int update" where
  "example_upload f =
     \<lparr>effective_chat_id = 7,
      message = Some \<lparr>document = Some \<lparr>file_name = Some (u ''Course.XLSX''), payload = f\<rparr>,
                      effective_attachment = None\<rparr>\<rparr>"

definition example_state :: "int bot_state" where
  "example_state =
     \<lparr>files = Map.empty,
      jobs = Some [\<lparr>job_name = u ''daily:2'', job_chat_id = 2, job_xlsx_path = u ''data/2.xlsx'',
                    job_trigger = Daily 10 0\<rparr>],
      expecting_update = False,
      replies = []\<rparr>"

text \<open>The job of chat 7 and the stored files it reads; a later clock, 1 March 2024.\<close>

definition example_job :: job where
  "example_job =
     \<lparr>job_name = u ''daily:7'', job_chat_id = 7, job_xlsx_path = get_chat_file 7,
      job_trigger = Daily 10 0\<rparr>"

definition example_files :: "int filesystem" where
  "example_files = [get_chat_file 7 \<mapsto> example_workbook]"

definition example_later :: datetime where
  "example_later = \<lparr>year = 2024, month = 3, day = 1, hour = 10, minute = 0, second = 0,
                     microsecond = 0\<rparr>"

text \<open>The label of the channel, one of \<open>username_keys\<close>.\<close>

definition example_key :: ustr where
  "example_key = [1050, 1072, 1085, 1072, 1083]"

section \<open>Auxiliary facts\<close>

subsection \<open>The loops\<close>

lemma assignments_loop_accepted:
  "assignments_loop lib rows acc = Inr res \<Longrightarrow> res = acc @ accepted_rows lib rows"
proof (induction rows arbitrary: acc)
  case Nil
  then show ?case by simp
next
  case (Cons row rows)
  show ?case
  proof (cases "assignment_row lib row")
    case (Inl e)
    with Cons.prems show ?thesis by simp
  next
    case (Inr r)
    show ?thesis
    proof (cases r)
      case None
      with Inr Cons show ?thesis by simp
    next
      case (Some a)
      with Inr Cons.prems have "assignments_loop lib rows (acc @ [a]) = Inr res" by simp
      from Cons.IH[OF this] show ?thesis using Some Inr by simp
    qed
  qed
qed

lemma weights_loop_distinct:
  "weights_loop lib rows w = Inr w' \<Longrightarrow> distinct (map fst w) \<Longrightarrow> distinct (map fst w')"
  by (induction rows arbitrary: w) (auto split: sum.splits option.splits simp: distinct_update)

lemma weights_loop_map_of:
  "weights_loop lib rows w = Inr w' \<Longrightarrow> map_of w' = map_of w ++ map_of (rev (accepted_weights lib rows))"
proof (induction rows arbitrary: w)
  case Nil
  then show ?case by simp
next
  case (Cons row rows)
  show ?case
  proof (cases "weights_row lib row")
    case (Inl e)
    with Cons.prems show ?thesis by simp
  next
    case (Inr r)
    show ?thesis
    proof (cases r)
      case None
      with Inr Cons show ?thesis by simp
    next
      case (Some p)
      obtain l x where p: "p = (l, x)" by (cases p)
      from Some Inr p Cons.prems have "weights_loop lib rows (AList.update l x w) = Inr w'" by simp
      from Cons.IH[OF this] have "map_of w' = map_of (AList.update l x w) ++ map_of (rev (accepted_weights lib rows))" .
      then show ?thesis using Some Inr p
        by (simp add: update_conv' map_add_upd_left)
    qed
  qed
qed


lemma parse_rows_sorted:
  "parse_rows lib rows = Inr res \<Longrightarrow> sorted (map (\<lambda>a. dt_key (due a)) res)"
  by (auto simp: parse_rows_def split: sum.splits)

lemma parse_rows_stable:
  "parse_rows lib rows = Inr res \<Longrightarrow>
   filter (\<lambda>a. dt_key (due a) = k) res = filter (\<lambda>a. dt_key (due a) = k) (accepted_rows lib rows)"
  by (auto simp: parse_rows_def sort_key_stable split: sum.splits dest!: assignments_loop_accepted)

lemma sorted_key_dt_le:
  "sorted (map (\<lambda>a. dt_key (due a)) res) \<Longrightarrow> sorted_wrt (\<lambda>a b. dt_le (due a) (due b)) res"
  by (simp add: sorted_map dt_le_def sorted_wrt_map)

lemma parse_assignments_rows:
  "parse_assignments lib xlsx = Inr res \<Longrightarrow>
   \<exists>wb name. load_workbook xlsx = Inr wb \<and> find_sheet_name wb ASSIGNMENTS_SHEET = Some name
      \<and> parse_rows lib (iter_rows_min2 (worksheet wb name)) = Inr res"
  by (auto simp: parse_assignments_def split: sum.splits option.splits if_splits)

subsection \<open>The reminder texts\<close>

lemma join_Cons: "join sep (x # xs) = x @ (if xs = [] then [] else sep @ join sep xs)"
  by (cases xs) simp_all

lemma startswith_append: "startswith (p @ r) p"
  by (simp add: startswith_def)

lemma reminder_header_nonempty: "reminder_header label \<noteq> []"
  by (simp add: reminder_header_def REMINDER_HEAD_def)

lemma week_header_not_day: "\<not> startswith (reminder_header LABEL_WEEK @ r) (reminder_header LABEL_DAY)"
  by (simp add: startswith_def reminder_header_def REMINDER_HEAD_def REMINDER_TAIL_def LABEL_WEEK_def LABEL_DAY_def)

lemma day_header_not_week: "\<not> startswith (reminder_header LABEL_DAY @ r) (reminder_header LABEL_WEEK)"
  by (simp add: startswith_def reminder_header_def REMINDER_HEAD_def REMINDER_TAIL_def LABEL_WEEK_def LABEL_DAY_def)

lemma build_message_truthy: "truthy (build_message label items) \<longleftrightarrow> items \<noteq> []"
  using reminder_header_nonempty [of label]
  by (auto simp: truthy_def build_message_def join_Cons)

lemma build_message_week:
  "items \<noteq> [] \<Longrightarrow> is_week_message (the (build_message LABEL_WEEK items))
     \<and> \<not> is_day_message (the (build_message LABEL_WEEK items))"
  by (simp add: build_message_def is_week_message_def is_day_message_def join_Cons
      startswith_append week_header_not_day)

lemma build_message_day:
  "items \<noteq> [] \<Longrightarrow> is_day_message (the (build_message LABEL_DAY items))
     \<and> \<not> is_week_message (the (build_message LABEL_DAY items))"
  by (simp add: build_message_def is_week_message_def is_day_message_def join_Cons
      startswith_append day_header_not_week)

lemma filter_nonempty_list_ex: "filter P xs \<noteq> [] \<longleftrightarrow> list_ex P xs"
  by (induction xs) auto

lemma reminder_texts_eq:
  assumes "date_add_days (date_of now) 7 = Inr week_target"
    and "date_add_days (date_of now) 1 = Inr day_target"
  shows "reminder_texts now assignments =
     Inr ((if list_ex (\<lambda>a. date_of (due a) = week_target) assignments
           then [the (build_message LABEL_WEEK (week_items week_target assignments))] else [])
        @ (if list_ex (\<lambda>a. date_of (due a) = day_target) assignments
           then [the (build_message LABEL_DAY (day_items day_target assignments))] else []))"
  using assms
  by (simp add: reminder_texts_def Let_def build_message_truthy week_items_def day_items_def
      filter_nonempty_list_ex)

lemma daily_reminder_callback_silent:
  assumes "job_chat_id j = 0 \<or> job_xlsx_path j = []
           \<or> (\<exists>e. parse_assignments lib (open_path fs (job_xlsx_path j)) = Inl e)"
  shows "daily_reminder_callback lib fs now j = Inr []"
  using assms by (auto simp: daily_reminder_callback_def Let_def)

subsection \<open>The digest of near deadlines\<close>

lemma py_take_subset: "set (py_take k xs) \<subseteq> set xs"
  by (auto simp: py_take_def dest: in_set_takeD)

lemma py_take_length: "0 \<le> k \<Longrightarrow> int (length (py_take k xs)) \<le> k"
  by (simp add: py_take_def)

lemma nearest_items_window:
  "a \<in> set (nearest_items now horizon assignments limit) \<Longrightarrow>
   a \<in> set assignments \<and> dt_le now (due a) \<and> dt_le (due a) horizon"
  using py_take_subset [of limit "filter (\<lambda>a. dt_le now (due a) \<and> dt_le (due a) horizon) assignments"]
  by (auto simp: nearest_items_def)

lemma render_item_bullet: "\<exists>r. render_item a = 8226 # r"
  by (cases a) (simp add: render_item_def Let_def)

lemma msgs_distinct: "MSG_NO_DEADLINE_DATA \<noteq> MSG_NONE_SOON"
  by (simp add: MSG_NO_DEADLINE_DATA_def MSG_NONE_SOON_def)

lemma join_render_bullet:
  assumes "items \<noteq> []"
  shows "\<exists>r. join sep (map render_item items) = 8226 # r"
proof -
  from assms obtain a rest where items: "items = a # rest" by (cases items) auto
  obtain r where "render_item a = 8226 # r" using render_item_bullet by blast
  with items show ?thesis by (simp add: join_Cons)
qed

subsection \<open>Handles and weights\<close>

lemma strip_leading_at_Cons: "strip_leading_at (64 # val) = strip_leading_at val"
  by (simp add: strip_leading_at_def)

lemma handle_at: "handle (64 # val) = handle val"
  by (simp add: handle_def strip_leading_at_Cons)

lemma dropWhile_id: "s \<noteq> [] \<Longrightarrow> \<not> P (hd s) \<Longrightarrow> dropWhile P s = s"
  by (cases s) simp_all

lemma py_strip_id:
  assumes "s \<noteq> []" and "\<not> py_isspace (hd s)" and "\<not> py_isspace (last s)"
  shows "py_strip s = s"
proof -
  have "dropWhile py_isspace s = s" using assms(1,2) by (rule dropWhile_id)
  moreover have "dropWhile py_isspace (rev s) = rev s"
    using assms(1,3) by (intro dropWhile_id) (simp_all add: hd_rev)
  ultimately show ?thesis by (simp add: py_strip_def)
qed

lemma map_of_rev_last:
  assumes "l \<notin> fst ` set post"
  shows "map_of (rev (pre @ (l, x) # post)) l = Some x"
proof -
  have "map_of (rev post) l = None" using assms by (simp add: map_of_eq_None_iff)
  then show ?thesis by (simp add: map_add_def)
qed

lemma parse_weights_rows:
  "parse_weights lib xlsx = Inr weights \<Longrightarrow>
   \<exists>wb name. load_workbook xlsx = Inr wb \<and> find_sheet_name wb ASSESSMENT_SHEET = Some name
      \<and> weights_loop lib (iter_rows_min2 (worksheet wb name)) [] = Inr weights"
  by (auto simp: parse_weights_def split: sum.splits option.splits if_splits)

subsection \<open>The rows of the assignments sheet\<close>

lemma date_match_prefix: "date_match s = date_match (take 10 s)"
  by (simp add: date_match_def)

lemma date_match_append: "length s = 10 \<Longrightarrow> date_match (s @ rest) = date_match s"
  by (simp add: date_match_def)

lemma rejected_serial_is_dropped:
  assumes "from_excel lib n = None"
  shows "assignment_row lib [c0, CNum n, c2] = Inr None"
  using assms
  by (simp add: assignment_row_def row_get_def is_none_def convert_due_def Let_def)

lemma bad_shape_is_dropped:
  assumes "date_match (py_strip s) = None"
  shows "assignment_row lib [c0, CStr s, c2] = Inr None"
  using assms
  by (simp add: assignment_row_def row_get_def is_none_def convert_due_def Let_def)

lemma missing_due_is_dropped: "assignment_row lib [c0, CNone, c2] = Inr None"
  by (simp add: assignment_row_def row_get_def convert_due_def Let_def split: bool.split)

lemma empty_title_is_dropped:
  assumes "str_strip lib c0 = []"
  shows "assignment_row lib [c0, c1, c2] = Inr None"
  using assms
  by (simp add: assignment_row_def row_get_def Let_def split: bool.split)

lemma short_row_raises:
  assumes "\<not> is_none c0"
  shows "assignment_row lib [c0, c1] = Inl (IndexError, u ''tuple index out of range'')"
  using assms
  by (simp add: assignment_row_def row_get_def Let_def)

lemma assignments_loop_returns:
  assumes "list_all (\<lambda>row. \<exists>r. assignment_row lib row = Inr r) rows"
  shows "assignments_loop lib rows acc = Inr (acc @ accepted_rows lib rows)"
  using assms
proof (induction rows arbitrary: acc)
  case Nil
  then show ?case by simp
next
  case (Cons row rows)
  then obtain r where r: "assignment_row lib row = Inr r" by auto
  from Cons have "assignments_loop lib rows acc' = Inr (acc' @ accepted_rows lib rows)" for acc'
    by simp
  with r show ?case by (cases r) simp_all
qed

lemma parse_rows_returns:
  assumes "list_all (\<lambda>row. \<exists>r. assignment_row lib row = Inr r) rows"
  shows "parse_rows lib rows = Inr (sort_key (\<lambda>x. dt_key (due x)) (accepted_rows lib rows))"
  using assignments_loop_returns [OF assms, of "[]"] by (simp add: parse_rows_def)

subsection \<open>The job registry\<close>

lemma schedule_chat_reminders_single:
  "\<exists>j. schedule_chat_reminders test_mode c p (Some js) = Some [j] \<and> job_chat_id j = c
     \<and> job_xlsx_path j = p"
  by (simp add: schedule_chat_reminders_def remove_all_jobs_def run_repeating_def run_daily_def)

lemma schedule_chat_reminders_other_chat:
  assumes "c' \<noteq> c"
  shows "jobs_of_chat c' (schedule_chat_reminders test_mode c p jq) = []"
  using assms
  by (cases jq)
     (simp_all add: schedule_chat_reminders_def remove_all_jobs_def run_repeating_def
        run_daily_def jobs_of_chat_def)

lemma startup_keeps_last_chat_only:
  assumes "c' \<noteq> c"
  shows "jobs_of_chat c' (startup test_mode (cs @ [c]) jq) = []"
  using assms by (simp add: startup_def schedule_chat_reminders_other_chat)

subsection \<open>Evaluation of the examples\<close>

lemma example_parse_assignments:
  "parse_assignments example_lib example_workbook = Inr example_assignments"
  by (simp add: u_def py_strip_def py_isspace_def digit_val_def nd_zeros_def is_digit_def
      int_of_digits_def is_none_def py_str_def str_strip_def row_get_def is_leap_def
      DAYS_IN_MONTH_def days_in_month_def mk_datetime_def dt_key_def load_workbook_def
      sheetnames_def worksheet_def iter_rows_min2_def ASSIGNMENTS_SHEET_def
      ASSESSMENT_SHEET_def INFO_SHEET_def SHEET_ALIASES_def find_sheet_name_def due_def
      date_match_def convert_due_def assignment_row_def parse_rows_def
      parse_assignments_def
      example_lib_def at_midnight_def example_workbook_def example_assignments_def)

lemma example_parse_weights:
  "parse_weights example_lib example_workbook = Inr [(u ''HW'', 60), (u ''Exam'', 50)]"
  by (simp add: u_def py_strip_def py_isspace_def is_none_def py_str_def str_strip_def py_float_def
      row_get_def load_workbook_def sheetnames_def worksheet_def iter_rows_min2_def
      ASSIGNMENTS_SHEET_def ASSESSMENT_SHEET_def INFO_SHEET_def SHEET_ALIASES_def
      find_sheet_name_def weights_row_def parse_weights_def
      example_lib_def example_workbook_def)

lemma example_accepted_weights:
  "accepted_weights example_lib
     [[CStr (u ''HW''), CNum (PInt 40)], [CStr (u ''Exam''), CNum (PInt 50)],
      [CStr (u '' HW ''), CNum (PInt 60)], [CStr (u ''Quiz''), CStr (u ''ten'')]]
   = [(u ''HW'', 40), (u ''Exam'', 50), (u ''HW'', 60)]"
  by (simp add: u_def py_strip_def py_isspace_def is_none_def py_str_def str_strip_def
      py_float_def row_get_def weights_row_def example_lib_def)

lemma example_targets:
  "date_add_days (date_of example_now) 7 = Inr (2024, 2, 5)"
  "date_add_days (date_of example_now) 1 = Inr (2024, 1, 30)"
  by (simp_all add: u_def is_leap_def DAYS_IN_MONTH_def DAYS_BEFORE_MONTH_def days_before_year_def
      days_before_month_def ymd2ord_def MAXORDINAL_def ord2ymd_def date_of_def
      toordinal_def date_add_days_def
      example_now_def Let_def)

lemma example_horizon:
  "datetime_add_days example_now 14 = Inr (example_now\<lparr>month := 2, day := 12\<rparr>)"
  by (simp add: u_def is_leap_def DAYS_IN_MONTH_def DAYS_BEFORE_MONTH_def days_before_year_def
      days_before_month_def ymd2ord_def MAXORDINAL_def ord2ymd_def date_of_def
      toordinal_def datetime_add_days_def
      example_now_def Let_def)

lemma example_later_horizon:
  "datetime_add_days example_later 14 = Inr (example_later\<lparr>day := 15\<rparr>)"
  by (simp add: u_def is_leap_def DAYS_IN_MONTH_def DAYS_BEFORE_MONTH_def days_before_year_def
      days_before_month_def ymd2ord_def MAXORDINAL_def ord2ymd_def date_of_def
      toordinal_def datetime_add_days_def
      example_later_def Let_def)

lemma example_validate_bad:
  "validate lib example_bad_workbook = Inl (ValueError, u ''Sheet with course weights not found'')"
  by (simp add: validate_def u_def load_workbook_def sheetnames_def ASSESSMENT_SHEET_def
      ASSIGNMENTS_SHEET_def INFO_SHEET_def SHEET_ALIASES_def find_sheet_name_def parse_weights_def
      example_bad_workbook_def)

lemma example_validate_good: "validate example_lib example_workbook = Inr ()"
  by (simp add: validate_def example_parse_assignments example_parse_weights)

section \<open>The claims\<close>

subsection \<open>C1: rescheduling one chat and the jobs of the others\<close>

text \<open>
  C1 says that \<open>schedule_chat_reminders\<close> for one chat leaves the registered job of
  every other chat as it was. The function empties the whole registry first
  (\<^verbatim>\<open>remove_all_jobs\<close>, under the comment "Remove previous jobs for this chat"), so the
  job of chat 2 is gone after the reminders of chat 1 are scheduled.
\<close>

theorem schedule_chat_reminders_drops_other_chat:
  "jobs_of_chat 2 (jobs example_state) =
     [\<lparr>job_name = u ''daily:2'', job_chat_id = 2, job_xlsx_path = u ''data/2.xlsx'',
       job_trigger = Daily 10 0\<rparr>]
   \<and> jobs_of_chat 2 (schedule_chat_reminders False 1 (get_chat_file 1) (jobs example_state)) = []"
  by (simp add: example_state_def jobs_of_chat_def schedule_chat_reminders_def
      remove_all_jobs_def run_daily_def)

subsection \<open>C2: a malformed row and the whole parse\<close>

text \<open>
  C2 says that a malformed row is dropped and never makes \<open>parse_assignments\<close> fail.
  A row whose due string has the pattern of a date but names no day of the calendar
  (here 45.13.2024) makes \<^verbatim>\<open>datetime(year, month, day)\<close> raise ValueError, and nothing
  catches it: the call fails, and the well-formed row before it is lost with it. The
  branch for serial numbers does catch the failure of its conversion
  (\<open>rejected_serial_is_dropped\<close>).
\<close>

theorem parse_assignments_fails_on_impossible_date:
  "parse_assignments lib
     (Workbook
        [(u ''Assignments'',
          [[CStr (u ''Title''), CStr (u ''Due date''), CStr (u ''Link'')],
           [CStr (u ''HW1''), CStr (u ''01.02.2024''), CNone],
           [CStr (u ''HW2''), CStr (u ''45.13.2024''), CNone]])])
   = Inl (ValueError, u ''month must be in 1..12'')"
  by (simp add: u_def py_strip_def py_isspace_def digit_val_def nd_zeros_def is_digit_def
      int_of_digits_def is_none_def py_str_def str_strip_def row_get_def is_leap_def
      DAYS_IN_MONTH_def days_in_month_def mk_datetime_def dt_key_def load_workbook_def
      sheetnames_def worksheet_def iter_rows_min2_def ASSIGNMENTS_SHEET_def
      ASSESSMENT_SHEET_def INFO_SHEET_def SHEET_ALIASES_def find_sheet_name_def due_def
      date_match_def convert_due_def assignment_row_def parse_rows_def
      parse_assignments_def)

subsection \<open>C3: an upload whose validation fails\<close>

text \<open>
  C3 says that after an upload whose validation fails the file is kept, the failure is
  reported and the reminder job of the chat is registered all the same. The first two
  hold; the handler returns right after the report, so no job is registered. In the
  example chat 7 uploads a workbook without the grading sheet: the file is stored, the
  report is the last reply, and the registry holds no job of chat 7.
\<close>

theorem handle_document_failed_validation_registers_no_job:
  "files (handle_document example_lib False (example_upload example_bad_workbook) example_state)
     (get_chat_file 7) = Some example_bad_workbook
   \<and> last (replies (handle_document example_lib False (example_upload example_bad_workbook)
                     example_state))
       = MSG_SAVED_UNREADABLE @ u ''Sheet with course weights not found''
   \<and> jobs_of_chat 7 (jobs (handle_document example_lib False (example_upload example_bad_workbook)
                            example_state)) = []"
proof -
  have v: "validate example_lib (open_path [get_chat_file 7 \<mapsto> example_bad_workbook] (get_chat_file 7))
           = Inl (ValueError, u ''Sheet with course weights not found'')"
    by (simp add: open_path_def example_validate_bad)
  show ?thesis
    by (simp add: handle_document_def example_upload_def example_state_def pick_document_def
        is_excel_name_def py_lower_def endswith_def reply_text_def Let_def v exc_str_def
        jobs_of_chat_def u_def)
qed

text \<open>
  C3 as amended: on an upload of an Excel document the file is stored under the chat's
  path, whatever the validation says. When the validation fails, the replies are the
  acknowledgement and the report of the failure, and the job registry and the update
  flag are left as they were. When it succeeds, the flag is cleared, the replies are
  the acknowledgement, the confirmation and the note about the reminders, and the
  registry is the one \<open>schedule_chat_reminders\<close> returns for this chat.
\<close>

theorem handle_document_excel:
  assumes "message upd = Some msg"
    and "pick_document msg = Some doc"
    and "is_excel_name (case file_name doc of None \<Rightarrow> [] | Some n \<Rightarrow> n)"
  shows "files (handle_document lib test_mode upd st)
           = (files st)(get_chat_file (effective_chat_id upd) \<mapsto> payload doc)
       \<and> (case validate lib (payload doc) of
             Inl exc \<Rightarrow>
               jobs (handle_document lib test_mode upd st) = jobs st
               \<and> expecting_update (handle_document lib test_mode upd st) = expecting_update st
               \<and> replies (handle_document lib test_mode upd st)
                   = replies st
                     @ [if expecting_update st then MSG_UPDATING else MSG_RECEIVING,
                        MSG_SAVED_UNREADABLE @ exc_str exc]
           | Inr ok \<Rightarrow>
               jobs (handle_document lib test_mode upd st)
                 = schedule_chat_reminders test_mode (effective_chat_id upd)
                     (get_chat_file (effective_chat_id upd)) (jobs st)
               \<and> \<not> expecting_update (handle_document lib test_mode upd st)
               \<and> replies (handle_document lib test_mode upd st)
                   = replies st
                     @ [if expecting_update st then MSG_UPDATING else MSG_RECEIVING,
                        if expecting_update st then MSG_UPDATED else MSG_SAVED,
                        if test_mode then MSG_TEST_REMINDERS else MSG_DAILY_REMINDERS])"
proof (cases "validate lib (payload doc)")
  case (Inl exc)
  with assms show ?thesis
    by (simp add: handle_document_def Let_def open_path_def reply_text_def)
next
  case (Inr ok)
  with assms show ?thesis
    by (simp add: handle_document_def Let_def open_path_def reply_text_def)
qed

text \<open>The amended C3 at the example upload, for a failing and for a passing workbook.\<close>

theorem handle_document_excel_witness:
  "files (handle_document example_lib False (example_upload example_bad_workbook) example_state)
     = (files example_state)(get_chat_file 7 \<mapsto> example_bad_workbook)
   \<and> jobs (handle_document example_lib False (example_upload example_bad_workbook) example_state)
       = jobs example_state
   \<and> replies (handle_document example_lib False (example_upload example_bad_workbook) example_state)
       = [MSG_RECEIVING, MSG_SAVED_UNREADABLE @ u ''Sheet with course weights not found'']
   \<and> jobs (handle_document example_lib False (example_upload example_workbook) example_state)
       = Some [example_job]"
proof -
  let ?doc = "\<lambda>f. \<lparr>file_name = Some (u ''Course.XLSX''), payload = f\<rparr> :: int document"
  let ?msg = "\<lambda>f. \<lparr>document = Some (?doc f), effective_attachment = None\<rparr> :: int message"
  have h1: "message (example_upload f) = Some (?msg f)" for f
    by (simp add: example_upload_def)
  have h2: "pick_document (?msg f) = Some (?doc f)" for f
    by (simp add: pick_document_def)
  have h3: "is_excel_name (case file_name (?doc f) of None \<Rightarrow> [] | Some n \<Rightarrow> n)" for f
    by (simp add: is_excel_name_def py_lower_def endswith_def u_def)
  have c: "effective_chat_id (example_upload f) = 7" for f
    by (simp add: example_upload_def)
  have s: "schedule_chat_reminders False 7 (get_chat_file 7) (jobs example_state) = Some [example_job]"
    by (simp add: schedule_chat_reminders_def example_state_def remove_all_jobs_def run_daily_def
        example_job_def str_int_def str_nat.simps u_def)
  have st: "replies example_state = []" "\<not> expecting_update example_state"
    by (simp_all add: example_state_def)
  from handle_document_excel
         [OF h1 [of example_bad_workbook] h2 [of example_bad_workbook] h3 [of example_bad_workbook],
          where lib = example_lib and test_mode = False and st = example_state]
       handle_document_excel
         [OF h1 [of example_workbook] h2 [of example_workbook] h3 [of example_workbook],
          where lib = example_lib and test_mode = False and st = example_state]
  show ?thesis
    by (simp add: c s st example_validate_bad example_validate_good exc_str_def)
qed

subsection \<open>C4: the reminder tick\<close>

text \<open>
  C4: for every assignment list and every clock for which today plus 7 days and today
  plus 1 day exist, the texts of a tick are the week message exactly when some
  assignment is due on the day 7 days ahead, followed by the day message exactly when
  some assignment is due tomorrow; an empty bucket gives no text, and neither kind of
  message can be taken for the other. A job with a chat and a path whose file parses
  to the list sends exactly these texts, in this order, to its chat.
\<close>

theorem daily_reminder_callback_messages:
  assumes "date_add_days (date_of now) 7 = Inr week_target"
    and "date_add_days (date_of now) 1 = Inr day_target"
  shows "\<exists>week_text day_text.
           is_week_message week_text \<and> \<not> is_day_message week_text
         \<and> is_day_message day_text \<and> \<not> is_week_message day_text
         \<and> reminder_texts now assignments =
             Inr ((if list_ex (\<lambda>a. date_of (due a) = week_target) assignments
                   then [week_text] else [])
                @ (if list_ex (\<lambda>a. date_of (due a) = day_target) assignments
                   then [day_text] else []))
         \<and> (job_chat_id j \<noteq> 0 \<and> job_xlsx_path j \<noteq> []
              \<and> parse_assignments lib (open_path fs (job_xlsx_path j)) = Inr assignments
            \<longrightarrow> daily_reminder_callback lib fs now j =
                  Inr ((if list_ex (\<lambda>a. date_of (due a) = week_target) assignments
                        then [(job_chat_id j, week_text)] else [])
                     @ (if list_ex (\<lambda>a. date_of (due a) = day_target) assignments
                        then [(job_chat_id j, day_text)] else [])))"
proof -
  let ?W = "list_ex (\<lambda>a. date_of (due a) = week_target) assignments"
  let ?D = "list_ex (\<lambda>a. date_of (due a) = day_target) assignments"
  define w where "w = (if ?W then the (build_message LABEL_WEEK (week_items week_target assignments))
                       else reminder_header LABEL_WEEK)"
  define d where "d = (if ?D then the (build_message LABEL_DAY (day_items day_target assignments))
                       else reminder_header LABEL_DAY)"
  have w: "is_week_message w \<and> \<not> is_day_message w"
  proof (cases ?W)
    case True
    then have "week_items week_target assignments \<noteq> []"
      by (simp add: week_items_def filter_nonempty_list_ex)
    from build_message_week [OF this] True show ?thesis by (simp add: w_def)
  next
    case False
    then show ?thesis
      using startswith_append [of "reminder_header LABEL_WEEK" "[]"] week_header_not_day [of "[]"]
      by (simp add: w_def is_week_message_def is_day_message_def)
  qed
  have d: "is_day_message d \<and> \<not> is_week_message d"
  proof (cases ?D)
    case True
    then have "day_items day_target assignments \<noteq> []"
      by (simp add: day_items_def filter_nonempty_list_ex)
    from build_message_day [OF this] True show ?thesis by (simp add: d_def)
  next
    case False
    then show ?thesis
      using startswith_append [of "reminder_header LABEL_DAY" "[]"] day_header_not_week [of "[]"]
      by (simp add: d_def is_week_message_def is_day_message_def)
  qed
  have texts: "reminder_texts now assignments =
          Inr ((if ?W then [w] else []) @ (if ?D then [d] else []))"
    using reminder_texts_eq [OF assms, of assignments] by (simp add: w_def d_def)
  have sent: "daily_reminder_callback lib fs now j =
          Inr ((if ?W then [(job_chat_id j, w)] else []) @ (if ?D then [(job_chat_id j, d)] else []))"
    if "job_chat_id j \<noteq> 0" "job_xlsx_path j \<noteq> []"
       "parse_assignments lib (open_path fs (job_xlsx_path j)) = Inr assignments"
    using that texts by (simp add: daily_reminder_callback_def Let_def)
  from w d texts sent show ?thesis by blast
qed

text \<open>
  C4 at the example: on 29 January the job of chat 7 finds B and C due on 5 February
  and D due on 30 January, and sends the week message, then the day message.
\<close>

theorem daily_reminder_callback_messages_witness:
  "\<exists>week_text day_text.
     is_week_message week_text \<and> \<not> is_day_message week_text
   \<and> is_day_message day_text \<and> \<not> is_week_message day_text
   \<and> reminder_texts example_now example_assignments = Inr [week_text, day_text]
   \<and> daily_reminder_callback example_lib example_files example_now example_job
       = Inr [(7, week_text), (7, day_text)]"
proof -
  have h1: "job_chat_id example_job \<noteq> 0"
    by (simp add: example_job_def)
  have h2: "job_xlsx_path example_job \<noteq> []"
    by (simp add: example_job_def get_chat_file_def u_def)
  have h3: "parse_assignments example_lib (open_path example_files (job_xlsx_path example_job))
            = Inr example_assignments"
    by (simp add: example_job_def example_files_def open_path_def example_parse_assignments)
  have W: "list_ex (\<lambda>a. date_of (due a) = (2024, 2, 5)) example_assignments"
    by (simp add: example_assignments_def at_midnight_def date_of_def due_def)
  have D: "list_ex (\<lambda>a. date_of (due a) = (2024, 1, 30)) example_assignments"
    by (simp add: example_assignments_def at_midnight_def date_of_def due_def)
  have c: "job_chat_id example_job = 7"
    by (simp add: example_job_def)
  from daily_reminder_callback_messages [OF example_targets,
         where assignments = example_assignments and j = example_job and lib = example_lib
           and fs = example_files]
  show ?thesis by (simp add: W D c h2 h3)
qed

subsection \<open>C5: the pattern of a due string\<close>

text \<open>
  C5 says that a due string is accepted only if it is exactly two digits, a dot, two
  digits, a dot and four digits, and that every other string drops the row. The
  pattern is matched with \<^verbatim>\<open>re.match\<close>, at the start of the string only
  (\<open>date_match_prefix\<close>), under the comment "accept datetime or dd.mm.yyyy string":
  a string that goes on after the year is accepted, with the date of its first ten
  characters.
\<close>

theorem parse_assignments_accepts_trailing_text:
  "parse_assignments lib
     (Workbook
        [(u ''Assignments'',
          [[CStr (u ''Title''), CStr (u ''Due date''), CStr (u ''Link'')],
           [CStr (u ''HW1''), CStr (u ''01.02.2024xyz''), CNone]])])
   = Inr [(u ''HW1'', at_midnight 2024 2 1, [])]"
  by (simp add: u_def py_strip_def py_isspace_def digit_val_def nd_zeros_def is_digit_def
      int_of_digits_def is_none_def py_str_def str_strip_def row_get_def is_leap_def
      DAYS_IN_MONTH_def days_in_month_def mk_datetime_def dt_key_def load_workbook_def
      sheetnames_def worksheet_def iter_rows_min2_def ASSIGNMENTS_SHEET_def
      ASSESSMENT_SHEET_def INFO_SHEET_def SHEET_ALIASES_def find_sheet_name_def due_def
      date_match_def convert_due_def assignment_row_def parse_rows_def
      parse_assignments_def
      at_midnight_def)

subsection \<open>C6: the order of the assignments\<close>

text \<open>
  C6: the list \<open>parse_assignments\<close> returns is sorted by the due datetime, and for
  every due datetime the assignments with that datetime stand in the order of their
  rows in the sheet.
\<close>

theorem parse_assignments_sorted_stable:
  assumes "parse_assignments lib xlsx = Inr res"
  shows "sorted_wrt (\<lambda>a b. dt_le (due a) (due b)) res
       \<and> (\<exists>wb name. load_workbook xlsx = Inr wb
             \<and> find_sheet_name wb ASSIGNMENTS_SHEET = Some name
             \<and> (\<forall>k. filter (\<lambda>a. dt_key (due a) = k) res
                    = filter (\<lambda>a. dt_key (due a) = k)
                        (accepted_rows lib (iter_rows_min2 (worksheet wb name)))))"
proof -
  from parse_assignments_rows [OF assms] obtain wb name where
    wb: "load_workbook xlsx = Inr wb" "find_sheet_name wb ASSIGNMENTS_SHEET = Some name"
    and rows: "parse_rows lib (iter_rows_min2 (worksheet wb name)) = Inr res"
    by blast
  have "sorted_wrt (\<lambda>a b. dt_le (due a) (due b)) res"
    using parse_rows_sorted [OF rows] by (rule sorted_key_dt_le)
  moreover have "\<forall>k. filter (\<lambda>a. dt_key (due a) = k) res
                    = filter (\<lambda>a. dt_key (due a) = k)
                        (accepted_rows lib (iter_rows_min2 (worksheet wb name)))"
    using parse_rows_stable [OF rows] by blast
  ultimately show ?thesis using wb by blast
qed

text \<open>
  C6 at the example workbook: the rows B, A, C, D come out as D, A, B, C, and B
  stays before C, both due on 5 February.
\<close>

theorem parse_assignments_sorted_stable_witness:
  "parse_assignments example_lib example_workbook = Inr example_assignments
   \<and> sorted_wrt (\<lambda>a b. dt_le (due a) (due b)) example_assignments
   \<and> filter (\<lambda>a. dt_key (due a) = dt_key (at_midnight 2024 2 5)) example_assignments
       = [(u ''B'', at_midnight 2024 2 5, []), (u ''C'', at_midnight 2024 2 5, u ''x.org/c'')]"
proof -
  from parse_assignments_sorted_stable [OF example_parse_assignments]
  have "sorted_wrt (\<lambda>a b. dt_le (due a) (due b)) example_assignments"
    by blast
  moreover have "filter (\<lambda>a. dt_key (due a) = dt_key (at_midnight 2024 2 5)) example_assignments
       = [(u ''B'', at_midnight 2024 2 5, []), (u ''C'', at_midnight 2024 2 5, u ''x.org/c'')]"
    by (simp add: example_assignments_def at_midnight_def dt_key_def due_def)
  ultimately show ?thesis using example_parse_assignments by blast
qed

subsection \<open>C7: the window of the digest\<close>

text \<open>
  C7: with \<open>horizon\<close> the clock plus 14 days, every assignment \<open>format_nearest\<close>
  renders is one of the list and is due no earlier than \<open>now\<close> and no later than
  \<open>horizon\<close>; for a limit that is not negative at most \<open>limit\<close> assignments are
  rendered, and at most 5 for the default. The text returned is the lines of exactly
  these assignments.
\<close>

theorem format_nearest_window:
  assumes "datetime_add_days now 14 = Inr horizon"
  shows "list_all (\<lambda>a. a \<in> set assignments \<and> dt_le now (due a) \<and> dt_le (due a) horizon)
           (nearest_items now horizon assignments limit)
       \<and> (0 \<le> limit \<longrightarrow> int (length (nearest_items now horizon assignments limit)) \<le> limit)
       \<and> length (nearest_items now horizon assignments DEFAULT_LIMIT) \<le> 5
       \<and> format_nearest now assignments limit =
           Inr (if assignments = [] then MSG_NO_DEADLINE_DATA
                else if nearest_items now horizon assignments limit = [] then MSG_NONE_SOON
                else join [10] (map render_item (nearest_items now horizon assignments limit)))"
proof -
  have 1: "list_all (\<lambda>a. a \<in> set assignments \<and> dt_le now (due a) \<and> dt_le (due a) horizon)
           (nearest_items now horizon assignments limit)"
    unfolding list_all_iff using nearest_items_window by blast
  have 2: "0 \<le> limit \<longrightarrow> int (length (nearest_items now horizon assignments limit)) \<le> limit"
    by (simp add: nearest_items_def py_take_length)
  have 3: "length (nearest_items now horizon assignments DEFAULT_LIMIT) \<le> 5"
    using py_take_length [of 5 "filter (\<lambda>a. dt_le now (due a) \<and> dt_le (due a) horizon) assignments"]
    by (simp add: nearest_items_def DEFAULT_LIMIT_def)
  have 4: "format_nearest now assignments limit =
           Inr (if assignments = [] then MSG_NO_DEADLINE_DATA
                else if nearest_items now horizon assignments limit = [] then MSG_NONE_SOON
                else join [10] (map render_item (nearest_items now horizon assignments limit)))"
    using assms by (simp add: format_nearest_def Let_def)
  from 1 2 3 4 show ?thesis by blast
qed

text \<open>
  C7 at the example: on 29 January, 10:00, all four assignments are due within 14
  days; with the limit 2 the digest shows D and A.
\<close>

theorem format_nearest_window_witness:
  "nearest_items example_now (example_now\<lparr>month := 2, day := 12\<rparr>) example_assignments 2
     = [(u ''D'', at_midnight 2024 1 30, []), (u ''A'', at_midnight 2024 2 1, [])]
   \<and> list_all (\<lambda>a. a \<in> set example_assignments \<and> dt_le example_now (due a)
                  \<and> dt_le (due a) (example_now\<lparr>month := 2, day := 12\<rparr>))
        [(u ''D'', at_midnight 2024 1 30, []), (u ''A'', at_midnight 2024 2 1, [])]
   \<and> format_nearest example_now example_assignments 2
       = Inr (join [10] (map render_item
                [(u ''D'', at_midnight 2024 1 30, []), (u ''A'', at_midnight 2024 2 1, [])]))"
proof -
  have items: "nearest_items example_now (example_now\<lparr>month := 2, day := 12\<rparr>) example_assignments 2
     = [(u ''D'', at_midnight 2024 1 30, []), (u ''A'', at_midnight 2024 2 1, [])]"
    by (simp add: nearest_items_def py_take_def example_assignments_def example_now_def
        at_midnight_def dt_le_def dt_key_def due_def)
  have ne: "example_assignments \<noteq> []"
    by (simp add: example_assignments_def)
  from format_nearest_window [OF example_horizon, of example_assignments 2]
  show ?thesis by (simp add: items ne)
qed

subsection \<open>C8: the two empty outcomes of the digest\<close>

text \<open>
  C8: for the empty list \<open>format_nearest\<close> returns the message that no deadline data
  is there; for a list that is not empty and has no assignment in the window it
  returns the message that no deadline is near; the two messages differ, and the first
  is returned for the empty list only.
\<close>

theorem format_nearest_empty_outcomes:
  assumes "datetime_add_days now 14 = Inr horizon"
  shows "format_nearest now [] limit = Inr MSG_NO_DEADLINE_DATA
       \<and> (assignments \<noteq> []
            \<and> \<not> list_ex (\<lambda>a. dt_le now (due a) \<and> dt_le (due a) horizon) assignments
          \<longrightarrow> format_nearest now assignments limit = Inr MSG_NONE_SOON)
       \<and> MSG_NO_DEADLINE_DATA \<noteq> MSG_NONE_SOON
       \<and> (format_nearest now assignments limit = Inr MSG_NO_DEADLINE_DATA \<longleftrightarrow> assignments = [])"
proof -
  have 1: "format_nearest now [] limit = Inr MSG_NO_DEADLINE_DATA"
    by (simp add: format_nearest_def)
  have 2: "format_nearest now assignments limit = Inr MSG_NONE_SOON"
    if "assignments \<noteq> []" "\<not> list_ex (\<lambda>a. dt_le now (due a) \<and> dt_le (due a) horizon) assignments"
  proof -
    from that(2) have "filter (\<lambda>a. dt_le now (due a) \<and> dt_le (due a) horizon) assignments = []"
      by (simp add: filter_empty_conv list_ex_iff)
    then have "nearest_items now horizon assignments limit = []"
      by (simp add: nearest_items_def py_take_def)
    with that(1) assms show ?thesis by (simp add: format_nearest_def)
  qed
  have 3: "format_nearest now assignments limit \<noteq> Inr MSG_NO_DEADLINE_DATA" if ne: "assignments \<noteq> []"
  proof (cases "nearest_items now horizon assignments limit = []")
    case True
    with ne assms show ?thesis by (simp add: format_nearest_def msgs_distinct [symmetric])
  next
    case False
    from join_render_bullet [OF False, of "[10]"]
    obtain r where "join [10] (map render_item (nearest_items now horizon assignments limit)) = 8226 # r"
      by blast
    with ne assms False show ?thesis
      by (simp add: format_nearest_def Let_def MSG_NO_DEADLINE_DATA_def)
  qed
  from 1 2 3 msgs_distinct show ?thesis by blast
qed

text \<open>
  C8 at the example: on 1 March none of the four assignments is within 14 days, and
  the digest says so; for the empty list it says that no data is there.
\<close>

theorem format_nearest_empty_outcomes_witness:
  "format_nearest example_later [] 5 = Inr MSG_NO_DEADLINE_DATA
   \<and> format_nearest example_later example_assignments 5 = Inr MSG_NONE_SOON
   \<and> MSG_NO_DEADLINE_DATA \<noteq> MSG_NONE_SOON"
proof -
  have ne: "example_assignments \<noteq> []"
    by (simp add: example_assignments_def)
  have out: "\<not> list_ex (\<lambda>a. dt_le example_later (due a) \<and> dt_le (due a) (example_later\<lparr>day := 15\<rparr>))
                  example_assignments"
    by (simp add: example_assignments_def example_later_def at_midnight_def dt_le_def dt_key_def
        due_def)
  from format_nearest_empty_outcomes [OF example_later_horizon, of 5 example_assignments]
  show ?thesis by (simp add: ne out)
qed

subsection \<open>C9: the handle of an identity item\<close>

text \<open>
  C9 says that for an identity label \<open>format_info\<close> shows the value with the at
  signs at its start removed and one at sign put in front, the empty value giving a
  blank handle. The source also trims what is left after the at signs and shows a
  blank handle when nothing is left: the value of three at signs is shown blank, not
  as one at sign, and the value of an at sign, a blank and bob is shown as @bob, the
  blank gone. The text returned for the value of three at signs ends with the colon
  and the blank after the label.
\<close>

theorem format_info_handle_counterexample:
  "handle (u ''@@@'') = [] \<and> claimed_handle (u ''@@@'') = u ''@''
   \<and> handle (u ''@@@'') \<noteq> claimed_handle (u ''@@@'')
   \<and> handle (u ''@ bob'') = u ''@bob'' \<and> claimed_handle (u ''@ bob'') = u ''@ bob''
   \<and> handle (u ''@ bob'') \<noteq> claimed_handle (u ''@ bob'')
   \<and> format_info [(example_key, u ''@@@'')]
       = INFO_GREETING @ [10, 10] @ [8226, 32] @ u ''<b>'' @ html_escape example_key @ u ''</b>: ''
   \<and> format_info [(example_key, u ''@ bob'')]
       = INFO_GREETING @ [10, 10] @ [8226, 32] @ u ''<b>'' @ html_escape example_key
         @ u ''</b>: @bob''"
proof -
  have h: "handle (u ''@@@'') = []" "handle (u ''@ bob'') = u ''@bob''"
    by (simp_all add: handle_def strip_leading_at_def py_strip_def py_isspace_def u_def)
  have c: "claimed_handle (u ''@@@'') = u ''@''" "claimed_handle (u ''@ bob'') = u ''@ bob''"
    by (simp_all add: claimed_handle_def u_def)
  have n: "handle (u ''@@@'') \<noteq> claimed_handle (u ''@@@'')"
    "handle (u ''@ bob'') \<noteq> claimed_handle (u ''@ bob'')"
    by (simp_all add: h c) (simp_all add: u_def)
  have k: "example_key \<in> set username_keys"
    by (simp add: example_key_def username_keys_def)
  have e: "html_escape [] = []" "html_escape (u ''@bob'') = u ''@bob''"
    by (simp_all add: html_escape_def escape_char_def u_def)
  have t: "u ''</b>: '' @ u ''@bob'' = u ''</b>: @bob''"
    by (simp add: u_def)
  have f: "format_info [(example_key, v)]
             = INFO_GREETING @ [10, 10] @ [8226, 32] @ u ''<b>'' @ html_escape example_key
               @ u ''</b>: '' @ html_escape (handle v)" for v
    using k by (simp add: format_info_def info_line_def Let_def)
  from h c n f [of "u ''@@@''"] f [of "u ''@ bob''"] show ?thesis
    by (simp add: e t)
qed

text \<open>
  C9 as amended: for a label that is one of the identity labels, the text that
  \<open>format_info\<close> returns holds, at the place of the item, the bullet, the label in
  bold, a colon and the handle of the value (escaped). The handle is the value with
  the at signs at its start removed and the rest trimmed of white space, with one at
  sign in front, and it is blank when nothing is left. Where the rest is not empty and
  neither starts nor ends with white space, the handle is one at sign and the rest. An
  at sign more in front of the value changes neither the handle nor the text: the
  values @alice and alice both give the text with the handle @alice, and the empty
  value gives the text with a blank handle.
\<close>

theorem format_info_handle:
  assumes "key \<in> set username_keys"
  shows "format_info (pre @ (key, val) # post)
           = join [10, 10]
               (INFO_GREETING # map info_line pre
                @ ([8226, 32] @ u ''<b>'' @ html_escape key @ u ''</b>: ''
                   @ html_escape (handle val))
                  # map info_line post)
       \<and> format_info [(key, val)]
           = INFO_GREETING @ [10, 10] @ [8226, 32] @ u ''<b>'' @ html_escape key @ u ''</b>: ''
             @ html_escape (handle val)
       \<and> info_line (key, val)
           = [8226, 32] @ u ''<b>'' @ html_escape key @ u ''</b>: '' @ html_escape (handle val)
       \<and> handle val = (if py_strip (dropWhile (\<lambda>c. c = 64) val) = [] then []
                       else 64 # py_strip (dropWhile (\<lambda>c. c = 64) val))
       \<and> (dropWhile (\<lambda>c. c = 64) val \<noteq> []
            \<and> \<not> py_isspace (hd (dropWhile (\<lambda>c. c = 64) val))
            \<and> \<not> py_isspace (last (dropWhile (\<lambda>c. c = 64) val))
          \<longrightarrow> handle val = 64 # dropWhile (\<lambda>c. c = 64) val)
       \<and> handle (64 # val) = handle val
       \<and> format_info (pre @ (key, 64 # val) # post) = format_info (pre @ (key, val) # post)
       \<and> handle (u ''@alice'') = u ''@alice'' \<and> handle (u ''alice'') = u ''@alice''
       \<and> format_info [(key, u ''@alice'')]
           = INFO_GREETING @ [10, 10] @ [8226, 32] @ u ''<b>'' @ html_escape key
             @ u ''</b>: @alice''
       \<and> format_info [(key, u ''alice'')]
           = INFO_GREETING @ [10, 10] @ [8226, 32] @ u ''<b>'' @ html_escape key
             @ u ''</b>: @alice''
       \<and> handle [] = []
       \<and> format_info [(key, [])]
           = INFO_GREETING @ [10, 10] @ [8226, 32] @ u ''<b>'' @ html_escape key @ u ''</b>: ''"
proof -
  have line: "info_line (key, v)
                = [8226, 32] @ u ''<b>'' @ html_escape key @ u ''</b>: '' @ html_escape (handle v)" for v
    using assms by (simp add: info_line_def Let_def)
  have same: "info_line (key, 64 # v) = info_line (key, v)" for v
    by (simp add: line handle_at)
  have 0: "format_info (pre @ (key, val) # post)
           = join [10, 10]
               (INFO_GREETING # map info_line pre
                @ ([8226, 32] @ u ''<b>'' @ html_escape key @ u ''</b>: ''
                   @ html_escape (handle val))
                  # map info_line post)"
    by (simp add: format_info_def line)
  have 1: "format_info [(key, v)]
           = INFO_GREETING @ [10, 10] @ [8226, 32] @ u ''<b>'' @ html_escape key @ u ''</b>: ''
             @ html_escape (handle v)" for v
    by (simp add: format_info_def line)
  have 2: "handle val = (if py_strip (dropWhile (\<lambda>c. c = 64) val) = [] then []
                       else 64 # py_strip (dropWhile (\<lambda>c. c = 64) val))"
    by (simp add: handle_def strip_leading_at_def Let_def)
  have 3: "handle val = 64 # dropWhile (\<lambda>c. c = 64) val"
    if "dropWhile (\<lambda>c. c = 64) val \<noteq> []"
       "\<not> py_isspace (hd (dropWhile (\<lambda>c. c = 64) val))"
       "\<not> py_isspace (last (dropWhile (\<lambda>c. c = 64) val))"
    using py_strip_id [OF that] that(1) by (simp add: 2)
  have 4: "format_info (pre @ (key, 64 # val) # post) = format_info (pre @ (key, val) # post)"
    by (simp add: format_info_def same)
  have alice: "handle (u ''@alice'') = u ''@alice''" "handle (u ''alice'') = u ''@alice''"
    "handle [] = []"
    by (simp_all add: handle_def strip_leading_at_def py_strip_def py_isspace_def u_def)
  have e: "html_escape (u ''@alice'') = u ''@alice''" "html_escape [] = []"
    by (simp_all add: html_escape_def escape_char_def u_def)
  have t: "u ''</b>: '' @ u ''@alice'' = u ''</b>: @alice''"
    by (simp add: u_def)
  have 5: "format_info [(key, u ''@alice'')]
           = INFO_GREETING @ [10, 10] @ [8226, 32] @ u ''<b>'' @ html_escape key
             @ u ''</b>: @alice''"
    using 1 [of "u ''@alice''"] by (simp add: alice e t)
  have 6: "format_info [(key, u ''alice'')]
           = INFO_GREETING @ [10, 10] @ [8226, 32] @ u ''<b>'' @ html_escape key
             @ u ''</b>: @alice''"
    using 1 [of "u ''alice''"] by (simp add: alice e t)
  have 7: "format_info [(key, [])]
           = INFO_GREETING @ [10, 10] @ [8226, 32] @ u ''<b>'' @ html_escape key @ u ''</b>: ''"
    using 1 [of "[]"] by (simp add: alice e)
  from 0 1 [of val] line [of val] 2 3 handle_at [of val] 4 alice 5 6 7 show ?thesis by blast
qed

text \<open>
  The amended C9 at the label of the channel: the values @@bob and bob give the same
  text, with the handle @bob, and the value of three at signs gives the text with a
  blank handle.
\<close>

theorem format_info_handle_witness:
  "handle (u ''@@bob'') = u ''@bob''
   \<and> format_info [(example_key, u ''@@bob'')]
       = INFO_GREETING @ [10, 10] @ [8226, 32] @ u ''<b>'' @ html_escape example_key
         @ u ''</b>: @bob''
   \<and> format_info [(example_key, u ''bob'')] = format_info [(example_key, u ''@@bob'')]
   \<and> format_info [(example_key, u ''@alice'')] = format_info [(example_key, u ''alice'')]
   \<and> format_info [(example_key, u ''@@@'')]
       = INFO_GREETING @ [10, 10] @ [8226, 32] @ u ''<b>'' @ html_escape example_key @ u ''</b>: ''"
proof -
  have k: "example_key \<in> set username_keys"
    by (simp add: example_key_def username_keys_def)
  have h: "handle (u ''@@bob'') = u ''@bob''" "handle (u ''bob'') = u ''@bob''"
    "handle (u ''@@@'') = []"
    by (simp_all add: handle_def strip_leading_at_def py_strip_def py_isspace_def u_def)
  have e: "html_escape (u ''@bob'') = u ''@bob''" "html_escape [] = []"
    by (simp_all add: html_escape_def escape_char_def u_def)
  have t: "u ''</b>: '' @ u ''@bob'' = u ''</b>: @bob''"
    by (simp add: u_def)
  from format_info_handle [OF k, where val = "u ''@@bob''" and pre = "[]" and post = "[]"]
  have b2: "format_info [(example_key, u ''@@bob'')]
             = INFO_GREETING @ [10, 10] @ [8226, 32] @ u ''<b>'' @ html_escape example_key
               @ u ''</b>: '' @ html_escape (handle (u ''@@bob''))"
    and al1: "format_info [(example_key, u ''@alice'')]
             = INFO_GREETING @ [10, 10] @ [8226, 32] @ u ''<b>'' @ html_escape example_key
               @ u ''</b>: @alice''"
    and al2: "format_info [(example_key, u ''alice'')]
             = INFO_GREETING @ [10, 10] @ [8226, 32] @ u ''<b>'' @ html_escape example_key
               @ u ''</b>: @alice''"
    by blast+
  from format_info_handle [OF k, where val = "u ''bob''" and pre = "[]" and post = "[]"]
  have b0: "format_info [(example_key, u ''bob'')]
             = INFO_GREETING @ [10, 10] @ [8226, 32] @ u ''<b>'' @ html_escape example_key
               @ u ''</b>: '' @ html_escape (handle (u ''bob''))"
    by blast
  from format_info_handle [OF k, where val = "u ''@@@''" and pre = "[]" and post = "[]"]
  have b3: "format_info [(example_key, u ''@@@'')]
             = INFO_GREETING @ [10, 10] @ [8226, 32] @ u ''<b>'' @ html_escape example_key
               @ u ''</b>: '' @ html_escape (handle (u ''@@@''))"
    by blast
  from b2 b0 b3 al1 al2 show ?thesis by (simp add: h e t)
qed

subsection \<open>C10: a label that stands twice on the grading sheet\<close>

text \<open>
  C10: the labels of the mapping \<open>parse_weights\<close> returns are distinct, and a label
  is mapped to the weight of the last accepted row that carries it (a label of no
  accepted row is not in the mapping).
\<close>

theorem parse_weights_last_wins:
  assumes "parse_weights lib xlsx = Inr weights"
  shows "distinct (map fst weights)
       \<and> (\<exists>wb name. load_workbook xlsx = Inr wb \<and> find_sheet_name wb ASSESSMENT_SHEET = Some name
            \<and> (\<forall>label x pre post.
                  accepted_weights lib (iter_rows_min2 (worksheet wb name)) = pre @ (label, x) # post
                  \<and> label \<notin> fst ` set post
                  \<longrightarrow> map_of weights label = Some x)
            \<and> (\<forall>label. label \<notin> fst ` set (accepted_weights lib (iter_rows_min2 (worksheet wb name)))
                  \<longrightarrow> map_of weights label = None))"
proof -
  from parse_weights_rows [OF assms] obtain wb name where
    wb: "load_workbook xlsx = Inr wb" "find_sheet_name wb ASSESSMENT_SHEET = Some name"
    and loop: "weights_loop lib (iter_rows_min2 (worksheet wb name)) [] = Inr weights"
    by blast
  let ?acc = "accepted_weights lib (iter_rows_min2 (worksheet wb name))"
  have d: "distinct (map fst weights)"
    using weights_loop_distinct [OF loop] by simp
  have m: "map_of weights = map_of (rev ?acc)"
    using weights_loop_map_of [OF loop] by simp
  have last: "map_of weights label = Some x"
    if "?acc = pre @ (label, x) # post" "label \<notin> fst ` set post" for label x pre post
    using map_of_rev_last [OF that(2), of pre x] that(1) m by simp
  have none: "map_of weights label = None" if "label \<notin> fst ` set ?acc" for label
    using that m by (simp add: map_of_eq_None_iff)
  from d wb last none show ?thesis by blast
qed

text \<open>
  C10 at the example workbook: HW stands in the rows with the weights 40 and 60 (the
  second with blanks around the label); the mapping has it once, with 60. The row of
  Quiz has no number and leaves no entry.
\<close>

theorem parse_weights_last_wins_witness:
  "parse_weights example_lib example_workbook = Inr [(u ''HW'', 60), (u ''Exam'', 50)]
   \<and> distinct (map fst [(u ''HW'', 60 :: int), (u ''Exam'', 50)])
   \<and> map_of [(u ''HW'', 60 :: int), (u ''Exam'', 50)] (u ''HW'') = Some 60
   \<and> map_of [(u ''HW'', 60 :: int), (u ''Exam'', 50)] (u ''Quiz'') = None"
proof -
  let ?w = "[(u ''HW'', 60 :: int), (u ''Exam'', 50)]"
  from parse_weights_last_wins [OF example_parse_weights] obtain wb name where
    d: "distinct (map fst ?w)"
    and wb: "load_workbook example_workbook = Inr wb"
    and name: "find_sheet_name wb ASSESSMENT_SHEET = Some name"
    and last: "\<And>label x pre post.
        accepted_weights example_lib (iter_rows_min2 (worksheet wb name)) = pre @ (label, x) # post
        \<Longrightarrow> label \<notin> fst ` set post \<Longrightarrow> map_of ?w label = Some x"
    and none: "\<And>label. label \<notin> fst ` set (accepted_weights example_lib (iter_rows_min2 (worksheet wb name)))
        \<Longrightarrow> map_of ?w label = None"
    by blast
  from wb name have acc: "accepted_weights example_lib (iter_rows_min2 (worksheet wb name))
      = [(u ''HW'', 40), (u ''Exam'', 50)] @ (u ''HW'', 60) # []"
    using example_accepted_weights
    by (auto simp: example_workbook_def load_workbook_def sheetnames_def worksheet_def
        iter_rows_min2_def ASSESSMENT_SHEET_def ASSIGNMENTS_SHEET_def INFO_SHEET_def
        SHEET_ALIASES_def find_sheet_name_def u_def)
  have hw: "map_of ?w (u ''HW'') = Some 60"
    by (rule last [OF acc]) simp
  have quiz: "map_of ?w (u ''Quiz'') = None"
    by (rule none) (simp add: acc u_def)
  from example_parse_weights d hw quiz show ?thesis by blast
qed

end
